theory Spec2Isabelle
  imports Complex_Main
begin

section \<open>The schema language\<close>

text \<open>
  The repository is a set of declarative model classes: every class attribute is a field
  declaration (a call of a field constructor with keyword arguments), and a nested
  \<open>Meta\<close> class carries the multi-column uniqueness constraints. The embedding keeps that
  shape: a field declaration is a value of the record \<open>field\<close>, a model class is the list
  of its field declarations, and the behaviour the declarations stand for (validation,
  insertion under the table constraints, deletion with its \<open>on_delete\<close> handlers) is
  given once, as functions that interpret the declarations.
\<close>

text \<open>
  The model classes. The first five are imported by the source from other applications
  (\<open>persons.models\<close>, \<open>contact.models\<close>, \<open>accounting.models\<close>) and only appear here as
  targets of relations; the others are declared in \<open>invoice.py\<close>, \<open>invoice_ar.py\<close> and
  \<open>sales.py\<close>.
\<close>

datatype model =
    Company | Contact | PhysicalAddress | Account | Transaction
  | FiscalPosition | CompanyInvoice | ContactInvoice | VAT | Product | InvoiceLine
  | InvoiceType | Invoice | FiscalPositionHasInvoiceTypeAllowed
  | ContactInvoiceAR | CompanyInvoiceAR | WebServiceSession | PointOfSaleAR
  | ConceptType | InvoiceAR | InvoiceARHasVATSubtotal
  | ProductCategory | ProductSales | QuotationLine | Quotation | SaleLine | Sale

text \<open>The two deletion handlers the source uses (\<open>models.CASCADE\<close>, \<open>models.PROTECT\<close>).\<close>

datatype on_delete_handler = CASCADE | PROTECT

text \<open>
  Field classes. \<open>DecimalField\<close> carries \<open>max_digits\<close> and \<open>decimal_places\<close>; the three
  relation classes carry the model they point to.
\<close>

datatype ftype =
    AutoField | BigIntegerField | BooleanField | CharField | DateField
  | DecimalField nat nat | FloatField | PositiveIntegerField | PositiveSmallIntegerField
  | SlugField | TextField
  | ForeignKey model | OneToOneField model | ManyToManyField model

text \<open>
  Field values. \<open>VNone\<close> is Python's \<open>None\<close>; a date is its day number; a decimal
  \<open>VDec c p\<close> is the \<open>Decimal\<close> written with the digits of \<open>c\<close> and \<open>p\<close> decimal places
  (\<open>VDec 150 2\<close> is \<open>Decimal('1.50')\<close>, \<open>VDec 0 0\<close> is \<open>Decimal('0')\<close>), so its digits
  are what the framework's digit checks count; a float is the rational it denotes (only
  finite floats are represented); a relation column holds the primary key of the row it
  points to. Where the source gives the float literal \<open>0.00\<close> as the default of a decimal
  field, the declaration below holds the decimal \<open>0\<close> the framework converts it to.
\<close>

datatype val =
    VNone | VBool bool | VInt int | VDec int nat | VFloat rat | VStr string | VDate int
  | VRef nat

text \<open>
  The validators that occur in \<open>validators=[...]\<close> lists of the source: the two range
  validators with their limit, and the repository's own \<open>date_is_present_or_past\<close>
  (the constructor \<open>Validator_date_is_present_or_past\<close> is the reference to it in a
  declaration). The other three are the validators the framework itself attaches to a
  field: \<open>MaxLengthValidator\<close> to a character field that declares \<open>max_length\<close>,
  \<open>DecimalValidator\<close> with \<open>max_digits\<close> and \<open>decimal_places\<close> to a decimal field, and
  \<open>validate_slug\<close> to a slug field.
\<close>

datatype validator =
    MinValueValidator rat | MaxValueValidator rat | MaxLengthValidator nat
  | DecimalValidator nat nat | validate_slug
  | Validator_date_is_present_or_past

record field =
  name :: string
  ftype :: ftype
  null :: bool
  blank :: bool
  default :: "val option"
  choices :: "(string \<times> string) list"
  validators :: "validator list"
  max_length :: "nat option"
  unique :: bool
  primary_key :: bool
  on_delete :: "on_delete_handler option"
  parent_link :: bool

text \<open>
  A declaration with no keyword arguments: every option at the value the framework gives
  it when the argument is absent. A declaration of the source is this record with the
  arguments it passes updated; arguments with no effect on validation or on the table
  constraints (\<open>verbose_name\<close>, \<open>help_text\<close>, \<open>related_name\<close>, \<open>related_query_name\<close>,
  \<open>db_index\<close>) are left out. An \<open>AutoField\<close> is given \<open>blank=True\<close> by its
  constructor, every other class \<open>blank=False\<close>.
\<close>

definition Field :: "string \<Rightarrow> ftype \<Rightarrow> field" where
  "Field n t = \<lparr> name = n, ftype = t, null = False, blank = (t = AutoField), default = None,
                 choices = [], validators = [], max_length = None, unique = False,
                 primary_key = False, on_delete = None, parent_link = False \<rparr>"

section \<open>The declarations of \<open>invoice.py\<close>\<close>

subsection \<open>\<open>FiscalPosition\<close>\<close>

definition FiscalPosition_fields :: "field list" where
  "FiscalPosition_fields =
    [ Field ''name'' CharField \<lparr> max_length := Some 50, unique := True \<rparr>,
      Field ''code'' SlugField
        \<lparr> max_length := Some 15, default := Some (VStr ''''), blank := True \<rparr> ]"

subsection \<open>\<open>CompanyInvoice\<close>\<close>

definition CompanyInvoice_persons_company :: field where
  "CompanyInvoice_persons_company =
     Field ''persons_company'' (OneToOneField Company) \<lparr> on_delete := Some CASCADE \<rparr>"

definition CompanyInvoice_fiscal_position :: field where
  "CompanyInvoice_fiscal_position =
     Field ''fiscal_position'' (ForeignKey FiscalPosition)
       \<lparr> on_delete := Some PROTECT, blank := True, null := True \<rparr>"

definition CompanyInvoice_fiscal_address :: field where
  "CompanyInvoice_fiscal_address =
     Field ''fiscal_address'' (ForeignKey PhysicalAddress)
       \<lparr> on_delete := Some CASCADE, blank := True, null := True \<rparr>"

definition CompanyInvoice_fields :: "field list" where
  "CompanyInvoice_fields =
    [ CompanyInvoice_persons_company,
      Field ''legal_name'' CharField \<lparr> max_length := Some 300 \<rparr>,
      Field ''initiated_activities'' DateField
        \<lparr> blank := True, null := True, validators := [Validator_date_is_present_or_past] \<rparr>,
      CompanyInvoice_fiscal_position,
      CompanyInvoice_fiscal_address,
      Field ''default_invoice_debit_account'' (ForeignKey Account)
        \<lparr> on_delete := Some PROTECT, null := True, blank := True \<rparr>,
      Field ''default_invoice_credit_account'' (ForeignKey Account)
        \<lparr> on_delete := Some PROTECT, null := True, blank := True \<rparr> ]"

subsection \<open>\<open>ContactInvoice\<close>\<close>

definition ContactInvoice_contact_contact :: field where
  "ContactInvoice_contact_contact =
     Field ''contact_contact'' (OneToOneField Contact) \<lparr> on_delete := Some CASCADE \<rparr>"

definition ContactInvoice_fiscal_position :: field where
  "ContactInvoice_fiscal_position =
     Field ''fiscal_position'' (ForeignKey FiscalPosition) \<lparr> on_delete := Some PROTECT \<rparr>"

definition ContactInvoice_fiscal_address :: field where
  "ContactInvoice_fiscal_address =
     Field ''fiscal_address'' (ForeignKey PhysicalAddress) \<lparr> on_delete := Some CASCADE \<rparr>"

definition ContactInvoice_fields :: "field list" where
  "ContactInvoice_fields =
    [ ContactInvoice_contact_contact,
      Field ''legal_name'' CharField \<lparr> max_length := Some 300 \<rparr>,
      ContactInvoice_fiscal_position,
      ContactInvoice_fiscal_address ]"

subsection \<open>\<open>VAT\<close>\<close>

definition VAT_tax :: field where
  "VAT_tax =
     Field ''tax'' (DecimalField 5 2)
       \<lparr> validators := [MinValueValidator 0, MaxValueValidator 1] \<rparr>"

definition VAT_fields :: "field list" where
  "VAT_fields =
    [ Field ''name'' CharField \<lparr> max_length := Some 15, unique := True \<rparr>,
      Field ''code'' SlugField
        \<lparr> max_length := Some 15, default := Some (VStr ''''), blank := True \<rparr>,
      VAT_tax ]"

subsection \<open>\<open>Product\<close>\<close>

definition Product_invoice_company :: field where
  "Product_invoice_company =
     Field ''invoice_company'' (ForeignKey CompanyInvoice) \<lparr> on_delete := Some PROTECT \<rparr>"

definition Product_name :: field where
  "Product_name = Field ''name'' CharField \<lparr> max_length := Some 150 \<rparr>"

definition Product_vat :: field where
  "Product_vat = Field ''vat'' (ForeignKey VAT) \<lparr> on_delete := Some PROTECT \<rparr>"

definition Product_fields :: "field list" where
  "Product_fields =
    [ Product_invoice_company,
      Product_name,
      Field ''current_price'' (DecimalField 12 2)
        \<lparr> blank := True, null := True, validators := [MinValueValidator 0] \<rparr>,
      Product_vat ]"

subsection \<open>\<open>InvoiceLine\<close>\<close>

definition InvoiceLine_product :: field where
  "InvoiceLine_product =
     Field ''product'' (ForeignKey Product) \<lparr> on_delete := Some PROTECT \<rparr>"

definition InvoiceLine_discount :: field where
  "InvoiceLine_discount =
     Field ''discount'' (DecimalField 5 2)
       \<lparr> default := Some (VDec 0 0), blank := True,
         validators := [MinValueValidator 0, MaxValueValidator 1] \<rparr>"

definition InvoiceLine_fields :: "field list" where
  "InvoiceLine_fields =
    [ Field ''id'' AutoField \<lparr> primary_key := True \<rparr>,
      InvoiceLine_product,
      Field ''price_sold'' (DecimalField 12 2)
        \<lparr> blank := True, null := True, validators := [MinValueValidator 0] \<rparr>,
      InvoiceLine_discount,
      Field ''quantity'' PositiveIntegerField \<lparr> default := Some (VInt 1) \<rparr>,
      Field ''description'' CharField
        \<lparr> max_length := Some 300, default := Some (VStr ''''), blank := True \<rparr> ]"

subsection \<open>\<open>InvoiceType\<close>\<close>

definition INVOICETYPE_CLASS_BILL :: string where
  "INVOICETYPE_CLASS_BILL = ''B''"

definition INVOICETYPE_CLASS_DEBIT :: string where
  "INVOICETYPE_CLASS_DEBIT = ''D''"

definition INVOICETYPE_CLASS_CREDIT :: string where
  "INVOICETYPE_CLASS_CREDIT = ''C''"

definition INVOICETYPE_CLASSES :: "(string \<times> string) list" where
  "INVOICETYPE_CLASSES =
    [ (INVOICETYPE_CLASS_BILL, ''Bill''),
      (INVOICETYPE_CLASS_DEBIT, ''Debit''),
      (INVOICETYPE_CLASS_CREDIT, ''Credit'') ]"

definition InvoiceType_fields :: "field list" where
  "InvoiceType_fields =
    [ Field ''name'' CharField \<lparr> max_length := Some 150 \<rparr>,
      Field ''invoice_type_class'' CharField
        \<lparr> max_length := Some 1, choices := INVOICETYPE_CLASSES \<rparr>,
      Field ''code'' SlugField
        \<lparr> max_length := Some 15, default := Some (VStr ''''), blank := True \<rparr> ]"

subsection \<open>\<open>Invoice\<close>\<close>

definition INVOICE_STATUSTYPE_DRAFT :: string where
  "INVOICE_STATUSTYPE_DRAFT = ''D''"

definition INVOICE_STATUSTYPE_ACCEPTED :: string where
  "INVOICE_STATUSTYPE_ACCEPTED = ''A''"

definition INVOICE_STATUSTYPE_AUTHORIZED :: string where
  "INVOICE_STATUSTYPE_AUTHORIZED = ''T''"

definition INVOICE_STATUSTYPE_CANCELED :: string where
  "INVOICE_STATUSTYPE_CANCELED = ''C''"

definition INVOICE_STATUS_TYPES :: "(string \<times> string) list" where
  "INVOICE_STATUS_TYPES =
    [ (INVOICE_STATUSTYPE_DRAFT, ''Draft''),
      (INVOICE_STATUSTYPE_ACCEPTED, ''Accepted''),
      (INVOICE_STATUSTYPE_AUTHORIZED, ''Authorized''),
      (INVOICE_STATUSTYPE_CANCELED, ''Canceled'') ]"

definition Invoice_invoice_date :: field where
  "Invoice_invoice_date =
     Field ''invoice_date'' DateField \<lparr> validators := [Validator_date_is_present_or_past] \<rparr>"

definition Invoice_status :: field where
  "Invoice_status =
     Field ''status'' CharField
       \<lparr> max_length := Some 1, choices := INVOICE_STATUS_TYPES,
         default := Some (VStr INVOICE_STATUSTYPE_DRAFT) \<rparr>"

definition Invoice_fields :: "field list" where
  "Invoice_fields =
    [ Field ''id'' AutoField \<lparr> primary_key := True \<rparr>,
      Field ''invoice_company'' (ForeignKey CompanyInvoice) \<lparr> on_delete := Some PROTECT \<rparr>,
      Field ''invoice_contact'' (ForeignKey ContactInvoice) \<lparr> on_delete := Some PROTECT \<rparr>,
      Field ''related_invoice'' (ForeignKey Invoice)
        \<lparr> on_delete := Some PROTECT, blank := True, null := True \<rparr>,
      Field ''number'' BigIntegerField \<lparr> default := Some (VInt 0), blank := True \<rparr>,
      Field ''invoice_lines'' (ManyToManyField InvoiceLine) \<lparr> blank := True \<rparr>,
      Field ''invoice_type'' (ForeignKey InvoiceType)
        \<lparr> on_delete := Some PROTECT, blank := True, null := True \<rparr>,
      Invoice_invoice_date,
      Invoice_status,
      Field ''subtotal'' (DecimalField 12 2) \<lparr> default := Some (VDec 0 0) \<rparr>,
      Field ''total'' (DecimalField 12 2) \<lparr> default := Some (VDec 0 0) \<rparr>,
      Field ''notes'' TextField \<lparr> blank := True, default := Some (VStr '''') \<rparr>,
      Field ''transaction'' (ForeignKey Transaction)
        \<lparr> on_delete := Some PROTECT, blank := True, null := True \<rparr> ]"

subsection \<open>\<open>FiscalPositionHasInvoiceTypeAllowed\<close>\<close>

definition FiscalPositionHasInvoiceTypeAllowed_fields :: "field list" where
  "FiscalPositionHasInvoiceTypeAllowed_fields =
    [ Field ''fiscal_position_issuer'' (ForeignKey FiscalPosition)
        \<lparr> on_delete := Some PROTECT \<rparr>,
      Field ''invoice_type'' (ForeignKey InvoiceType) \<lparr> on_delete := Some PROTECT \<rparr>,
      Field ''fiscal_position_receiver'' (ForeignKey FiscalPosition)
        \<lparr> on_delete := Some PROTECT \<rparr> ]"

section \<open>The declarations of \<open>invoice_ar.py\<close>\<close>

definition ID_TYPE_DNI :: string where
  "ID_TYPE_DNI = ''D''"

definition ID_TYPE_CUIT :: string where
  "ID_TYPE_CUIT = ''T''"

definition ID_TYPE_CUIL :: string where
  "ID_TYPE_CUIL = ''L''"

definition ID_TYPES :: "(string \<times> string) list" where
  "ID_TYPES = [(ID_TYPE_DNI, ''DNI''), (ID_TYPE_CUIT, ''CUIT''), (ID_TYPE_CUIL, ''CUIL'')]"

subsection \<open>\<open>ContactInvoiceAR\<close>\<close>

definition ContactInvoiceAR_fields :: "field list" where
  "ContactInvoiceAR_fields =
    [ Field ''invoice_contact'' (OneToOneField ContactInvoice)
        \<lparr> on_delete := Some CASCADE \<rparr>,
      Field ''id_type'' CharField
        \<lparr> max_length := Some 1, choices := ID_TYPES, blank := True, null := True \<rparr>,
      Field ''id_number'' CharField
        \<lparr> max_length := Some 14, default := Some (VStr ''''), blank := True \<rparr> ]"

subsection \<open>\<open>CompanyInvoiceAR\<close>\<close>

definition CompanyInvoiceAR_fields :: "field list" where
  "CompanyInvoiceAR_fields =
    [ Field ''invoice_company'' (OneToOneField CompanyInvoice)
        \<lparr> on_delete := Some CASCADE \<rparr>,
      Field ''cuit'' CharField
        \<lparr> max_length := Some 14, default := Some (VStr ''''), blank := True \<rparr>,
      Field ''iibb'' CharField
        \<lparr> max_length := Some 15, default := Some (VStr ''''), blank := True \<rparr>,
      Field ''key'' TextField \<lparr> default := Some (VStr ''''), blank := True \<rparr>,
      Field ''cert'' TextField \<lparr> default := Some (VStr ''''), blank := True \<rparr> ]"

subsection \<open>\<open>WebServiceSession\<close>\<close>

definition WebServiceSession_fields :: "field list" where
  "WebServiceSession_fields =
    [ Field ''invoicear_company'' (ForeignKey CompanyInvoiceAR)
        \<lparr> on_delete := Some PROTECT \<rparr>,
      Field ''begin'' CharField \<lparr> max_length := Some 50 \<rparr>,
      Field ''generation'' CharField \<lparr> max_length := Some 50 \<rparr>,
      Field ''expiration'' CharField \<lparr> max_length := Some 50 \<rparr>,
      Field ''token'' TextField,
      Field ''sign'' TextField ]"

subsection \<open>\<open>PointOfSaleAR\<close>\<close>

definition POINTOFSALE_TYPE_CONTROLADORFISCAL :: string where
  "POINTOFSALE_TYPE_CONTROLADORFISCAL = ''C''"

definition POINTOFSALE_TYPE_FACTUWEB :: string where
  "POINTOFSALE_TYPE_FACTUWEB = ''F''"

definition POINTOFSALE_TYPE_WEBSERVICE :: string where
  "POINTOFSALE_TYPE_WEBSERVICE = ''W''"

definition POINTOFSALE_TYPE_ENLINEA :: string where
  "POINTOFSALE_TYPE_ENLINEA = ''L''"

definition POINTOFSALE_TYPES :: "(string \<times> string) list" where
  "POINTOFSALE_TYPES =
    [ (POINTOFSALE_TYPE_CONTROLADORFISCAL, ''Fiscal Controller''),
      (POINTOFSALE_TYPE_FACTUWEB, ''Pre-printed''),
      (POINTOFSALE_TYPE_WEBSERVICE, ''Webservice''),
      (POINTOFSALE_TYPE_ENLINEA, ''Online'') ]"

definition PointOfSaleAR_invoicear_company :: field where
  "PointOfSaleAR_invoicear_company =
     Field ''invoicear_company'' (ForeignKey CompanyInvoiceAR)
       \<lparr> on_delete := Some PROTECT \<rparr>"

definition PointOfSaleAR_afip_id :: field where
  "PointOfSaleAR_afip_id = Field ''afip_id'' PositiveSmallIntegerField"

definition PointOfSaleAR_fields :: "field list" where
  "PointOfSaleAR_fields =
    [ PointOfSaleAR_invoicear_company,
      PointOfSaleAR_afip_id,
      Field ''fantasy_name'' CharField \<lparr> max_length := Some 150 \<rparr>,
      Field ''point_of_sale_type'' CharField
        \<lparr> max_length := Some 1, choices := POINTOFSALE_TYPES,
          default := Some (VStr POINTOFSALE_TYPE_WEBSERVICE) \<rparr>,
      Field ''fiscal_address'' (ForeignKey PhysicalAddress) \<lparr> on_delete := Some PROTECT \<rparr>,
      Field ''is_inactive'' BooleanField \<lparr> default := Some (VBool False) \<rparr> ]"

subsection \<open>\<open>ConceptType\<close>\<close>

definition ConceptType_fields :: "field list" where
  "ConceptType_fields =
    [ Field ''name'' CharField \<lparr> max_length := Some 50, unique := True \<rparr>,
      Field ''code'' SlugField \<lparr> max_length := Some 15, unique := True \<rparr> ]"

subsection \<open>\<open>InvoiceAR\<close>\<close>

text \<open>
  \<open>class InvoiceAR(Invoice)\<close> is a subclass of a concrete model: the table of
  \<open>InvoiceAR\<close> holds the fields declared below, and the framework adds to it the link to
  the row of \<open>Invoice\<close> that holds the inherited fields, a one-to-one field named
  \<open>invoice_ptr\<close> that cascades and is the primary key. That implicit field is the first
  entry of the list.
\<close>

definition InvoiceAR_fields :: "field list" where
  "InvoiceAR_fields =
    [ Field ''invoice_ptr'' (OneToOneField Invoice)
        \<lparr> on_delete := Some CASCADE, parent_link := True, primary_key := True \<rparr>,
      Field ''invoicear_company'' (ForeignKey CompanyInvoiceAR)
        \<lparr> on_delete := Some PROTECT \<rparr>,
      Field ''invoicear_contact'' (ForeignKey ContactInvoiceAR)
        \<lparr> on_delete := Some PROTECT \<rparr>,
      Field ''point_of_sale_ar'' (ForeignKey PointOfSaleAR) \<lparr> on_delete := Some PROTECT \<rparr>,
      Field ''due_date'' DateField,
      Field ''service_start'' DateField \<lparr> blank := True, null := True \<rparr>,
      Field ''service_end'' DateField \<lparr> blank := True, null := True \<rparr>,
      Field ''concept_type'' (ForeignKey ConceptType) \<lparr> on_delete := Some PROTECT \<rparr>,
      Field ''vat_total'' (DecimalField 15 2) \<lparr> default := Some (VDec 0 0) \<rparr>,
      Field ''vat_subtotals'' (ManyToManyField InvoiceARHasVATSubtotal) \<lparr> blank := True \<rparr>,
      Field ''cae'' CharField
        \<lparr> max_length := Some 12, default := Some (VStr ''''), blank := True \<rparr>,
      Field ''cae_expires'' DateField \<lparr> blank := True, null := True \<rparr> ]"

subsection \<open>\<open>InvoiceARHasVATSubtotal\<close>\<close>

definition InvoiceARHasVATSubtotal_fields :: "field list" where
  "InvoiceARHasVATSubtotal_fields =
    [ Field ''id'' AutoField \<lparr> primary_key := True \<rparr>,
      Field ''vat'' (ForeignKey VAT) \<lparr> on_delete := Some PROTECT \<rparr>,
      Field ''subtotal'' (DecimalField 15 2) \<lparr> default := Some (VDec 0 0) \<rparr> ]"

section \<open>The declarations of \<open>sales.py\<close>\<close>

subsection \<open>\<open>ProductCategory\<close>\<close>

definition ProductCategory_fields :: "field list" where
  "ProductCategory_fields =
    [ Field ''persons_company'' (ForeignKey Company) \<lparr> on_delete := Some PROTECT \<rparr>,
      Field ''name'' CharField \<lparr> max_length := Some 50 \<rparr>,
      Field ''description'' TextField
        \<lparr> max_length := Some 200, blank := True, default := Some (VStr '''') \<rparr> ]"

subsection \<open>\<open>ProductSales\<close>\<close>

text \<open>The one-to-one field of \<open>ProductSales\<close> is declared without \<open>on_delete\<close>.\<close>

definition ProductSales_fields :: "field list" where
  "ProductSales_fields =
    [ Field ''invoice_product'' (OneToOneField Product),
      Field ''description'' TextField
        \<lparr> max_length := Some 500, blank := True, default := Some (VStr '''') \<rparr>,
      Field ''categories'' (ManyToManyField ProductCategory) \<lparr> blank := True \<rparr> ]"

subsection \<open>\<open>QuotationLine\<close>\<close>

definition QuotationLine_product_discount :: field where
  "QuotationLine_product_discount =
     Field ''product_discount'' FloatField \<lparr> default := Some (VFloat 0), blank := True \<rparr>"

definition QuotationLine_fields :: "field list" where
  "QuotationLine_fields =
    [ Field ''product'' (ForeignKey Product) \<lparr> on_delete := Some PROTECT \<rparr>,
      Field ''product_price_override'' (DecimalField 12 2) \<lparr> blank := True, null := True \<rparr>,
      Field ''product_vat_override'' (ForeignKey VAT)
        \<lparr> on_delete := Some PROTECT, blank := True, null := True \<rparr>,
      QuotationLine_product_discount,
      Field ''quantity'' PositiveIntegerField \<lparr> default := Some (VInt 1) \<rparr> ]"

subsection \<open>\<open>Quotation\<close>\<close>

definition QUOTATION_STATUSTYPE_DRAFT :: string where
  "QUOTATION_STATUSTYPE_DRAFT = ''D''"

definition QUOTATION_STATUSTYPE_SAVED :: string where
  "QUOTATION_STATUSTYPE_SAVED = ''SA''"

definition QUOTATION_STATUSTYPE_SOLD :: string where
  "QUOTATION_STATUSTYPE_SOLD = ''SO''"

definition QUOTATION_STATUSTYPE_CANCELED :: string where
  "QUOTATION_STATUSTYPE_CANCELED = ''C''"

definition QUOTATION_STATUS_TYPES :: "(string \<times> string) list" where
  "QUOTATION_STATUS_TYPES =
    [ (QUOTATION_STATUSTYPE_DRAFT, ''Draft''),
      (QUOTATION_STATUSTYPE_SAVED, ''Saved''),
      (QUOTATION_STATUSTYPE_SOLD, ''Sold''),
      (QUOTATION_STATUSTYPE_CANCELED, ''Canceled'') ]"

definition Quotation_quotation_date :: field where
  "Quotation_quotation_date =
     Field ''quotation_date'' DateField
       \<lparr> validators := [Validator_date_is_present_or_past] \<rparr>"

definition Quotation_status :: field where
  "Quotation_status =
     Field ''status'' CharField
       \<lparr> max_length := Some 2, choices := QUOTATION_STATUS_TYPES,
         default := Some (VStr QUOTATION_STATUSTYPE_DRAFT) \<rparr>"

definition Quotation_fields :: "field list" where
  "Quotation_fields =
    [ Field ''persons_company'' (ForeignKey Company) \<lparr> on_delete := Some PROTECT \<rparr>,
      Field ''contacts'' (ManyToManyField Contact),
      Field ''quotation_lines'' (ManyToManyField QuotationLine),
      Quotation_quotation_date,
      Field ''subtotal'' (DecimalField 12 2) \<lparr> default := Some (VDec 0 0) \<rparr>,
      Field ''total'' (DecimalField 12 2) \<lparr> default := Some (VDec 0 0) \<rparr>,
      Field ''notes'' TextField \<lparr> blank := True, default := Some (VStr '''') \<rparr>,
      Quotation_status ]"

subsection \<open>\<open>SaleLine\<close>\<close>

definition SaleLine_product_discount :: field where
  "SaleLine_product_discount =
     Field ''product_discount'' FloatField \<lparr> default := Some (VFloat 0), blank := True \<rparr>"

definition SaleLine_fields :: "field list" where
  "SaleLine_fields =
    [ Field ''product'' (ForeignKey ProductSales) \<lparr> on_delete := Some PROTECT \<rparr>,
      Field ''product_price_override'' (DecimalField 12 2) \<lparr> blank := True, null := True \<rparr>,
      Field ''product_vat_override'' (ForeignKey VAT)
        \<lparr> on_delete := Some PROTECT, blank := True, null := True \<rparr>,
      SaleLine_product_discount,
      Field ''quantity'' PositiveIntegerField \<lparr> default := Some (VInt 1) \<rparr> ]"

subsection \<open>\<open>Sale\<close>\<close>

definition SALE_STATUSTYPE_DRAFT :: string where
  "SALE_STATUSTYPE_DRAFT = ''D''"

definition SALE_STATUSTYPE_SAVED :: string where
  "SALE_STATUSTYPE_SAVED = ''S''"

definition SALE_STATUSTYPE_INVOICED :: string where
  "SALE_STATUSTYPE_INVOICED = ''I''"

definition SALE_STATUSTYPE_CANCELED :: string where
  "SALE_STATUSTYPE_CANCELED = ''C''"

definition SALE_STATUS_TYPES :: "(string \<times> string) list" where
  "SALE_STATUS_TYPES =
    [ (SALE_STATUSTYPE_DRAFT, ''Draft''),
      (SALE_STATUSTYPE_SAVED, ''Saved''),
      (SALE_STATUSTYPE_INVOICED, ''Invoiced''),
      (SALE_STATUSTYPE_CANCELED, ''Canceled'') ]"

definition Sale_sale_date :: field where
  "Sale_sale_date =
     Field ''sale_date'' DateField \<lparr> validators := [Validator_date_is_present_or_past] \<rparr>"

definition Sale_status :: field where
  "Sale_status =
     Field ''status'' CharField
       \<lparr> max_length := Some 1, choices := SALE_STATUS_TYPES,
         default := Some (VStr SALE_STATUSTYPE_DRAFT) \<rparr>"

text \<open>The one-to-one field \<open>quotation\<close> of \<open>Sale\<close> is declared without \<open>on_delete\<close>.\<close>

definition Sale_fields :: "field list" where
  "Sale_fields =
    [ Field ''quotation'' (OneToOneField Quotation) \<lparr> blank := True, null := True \<rparr>,
      Field ''persons_company'' (ForeignKey Company) \<lparr> on_delete := Some PROTECT \<rparr>,
      Field ''contacts'' (ManyToManyField Contact),
      Field ''sale_lines'' (ManyToManyField SaleLine),
      Sale_sale_date,
      Field ''subtotal'' (DecimalField 12 2) \<lparr> default := Some (VDec 0 0) \<rparr>,
      Field ''total'' (DecimalField 12 2) \<lparr> default := Some (VDec 0 0) \<rparr>,
      Field ''notes'' TextField \<lparr> blank := True, default := Some (VStr '''') \<rparr>,
      Sale_status ]"

section \<open>Models and their options\<close>

text \<open>
  The field declarations of each model's own table, in the order of the source. The
  models imported from other applications have no declaration in these files.
\<close>

fun local_fields :: "model \<Rightarrow> field list" where
  "local_fields FiscalPosition = FiscalPosition_fields"
| "local_fields CompanyInvoice = CompanyInvoice_fields"
| "local_fields ContactInvoice = ContactInvoice_fields"
| "local_fields VAT = VAT_fields"
| "local_fields Product = Product_fields"
| "local_fields InvoiceLine = InvoiceLine_fields"
| "local_fields InvoiceType = InvoiceType_fields"
| "local_fields Invoice = Invoice_fields"
| "local_fields FiscalPositionHasInvoiceTypeAllowed = FiscalPositionHasInvoiceTypeAllowed_fields"
| "local_fields ContactInvoiceAR = ContactInvoiceAR_fields"
| "local_fields CompanyInvoiceAR = CompanyInvoiceAR_fields"
| "local_fields WebServiceSession = WebServiceSession_fields"
| "local_fields PointOfSaleAR = PointOfSaleAR_fields"
| "local_fields ConceptType = ConceptType_fields"
| "local_fields InvoiceAR = InvoiceAR_fields"
| "local_fields InvoiceARHasVATSubtotal = InvoiceARHasVATSubtotal_fields"
| "local_fields ProductCategory = ProductCategory_fields"
| "local_fields ProductSales = ProductSales_fields"
| "local_fields QuotationLine = QuotationLine_fields"
| "local_fields Quotation = Quotation_fields"
| "local_fields SaleLine = SaleLine_fields"
| "local_fields Sale = Sale_fields"
| "local_fields _ = []"

text \<open>\<open>Meta.unique_together\<close>: the tuples of field names that must be unique together.\<close>

fun unique_together :: "model \<Rightarrow> string list list" where
  "unique_together Product = [[''invoice_company'', ''name'']]"
| "unique_together PointOfSaleAR = [[''invoicear_company'', ''afip_id'']]"
| "unique_together ProductCategory = [[''persons_company'', ''name'']]"
| "unique_together _ = []"

text \<open>The models declared in the three files, in the order of their declaration.\<close>

definition declared_models :: "model list" where
  "declared_models =
    [ FiscalPosition, CompanyInvoice, ContactInvoice, VAT, Product, InvoiceLine, InvoiceType,
      Invoice, FiscalPositionHasInvoiceTypeAllowed,
      ContactInvoiceAR, CompanyInvoiceAR, WebServiceSession, PointOfSaleAR, ConceptType,
      InvoiceAR, InvoiceARHasVATSubtotal,
      ProductCategory, ProductSales, QuotationLine, Quotation, SaleLine, Sale ]"

text \<open>
  Inheritance from a concrete model: an instance of \<open>InvoiceAR\<close> has the fields of
  \<open>Invoice\<close> followed by its own.
\<close>

fun parent :: "model \<Rightarrow> model option" where
  "parent InvoiceAR = Some Invoice"
| "parent _ = None"

definition meta_fields :: "model \<Rightarrow> field list" where
  "meta_fields m =
     (case parent m of None \<Rightarrow> [] | Some p \<Rightarrow> local_fields p) @ local_fields m"

text \<open>
  The model a relation field points to. A many-to-many field has no column in the
  model's table; its rows live in a table of their own, which is not part of this
  development.
\<close>

fun rel_to :: "ftype \<Rightarrow> model option" where
  "rel_to (ForeignKey m) = Some m"
| "rel_to (OneToOneField m) = Some m"
| "rel_to _ = None"

fun many_to_many :: "ftype \<Rightarrow> bool" where
  "many_to_many (ManyToManyField m) = True"
| "many_to_many _ = False"

definition concrete_fields :: "model \<Rightarrow> field list" where
  "concrete_fields m = filter (\<lambda>f. \<not> many_to_many (ftype f)) (meta_fields m)"

definition columns :: "model \<Rightarrow> field list" where
  "columns m =
     filter (\<lambda>f. \<not> many_to_many (ftype f) \<and> ftype f \<noteq> AutoField) (local_fields m)"

section \<open>Rows and the database\<close>

text \<open>
  A row is an instance of a model: its primary key and the values of its fields by
  name. The database is the list of the stored rows of all tables.
\<close>

record row =
  rmodel :: model
  pk :: nat
  vals :: "(string \<times> val) list"

type_synonym db = "row list"

type_synonym key = "model \<times> nat"

definition key_of :: "row \<Rightarrow> key" where
  "key_of r = (rmodel r, pk r)"

definition getattr :: "row \<Rightarrow> string \<Rightarrow> val" where
  "getattr r n = (case map_of (vals r) n of None \<Rightarrow> VNone | Some v \<Rightarrow> v)"

definition exists_row :: "db \<Rightarrow> key \<Rightarrow> bool" where
  "exists_row d k = (k \<in> set (map key_of d))"

section \<open>Field validation\<close>

text \<open>
  What the framework does with a declaration when an instance is validated
  (\<open>Model.clean_fields\<close>, which calls \<open>Field.clean\<close> on every concrete field): convert
  the raw value (\<open>to_python\<close>), check \<open>choices\<close>, \<open>null\<close> and \<open>blank\<close> (\<open>validate\<close>),
  then run the validators of the declaration on a value that is not empty
  (\<open>run_validators\<close>). The codes of the errors are the framework's. The range
  validators that the framework derives for an integer field from the database
  connection in use are no part of the declarations and are not modelled here; the range
  of an integer column is checked where the row is inserted.
\<close>

datatype verror =
    E_invalid | E_invalid_choice | E_null | E_blank | E_min_value | E_max_value
  | E_max_length | E_max_digits | E_max_decimal_places | E_max_whole_digits
  | E_not_present_or_past

definition empty_values :: "val list" where
  "empty_values = [VNone, VStr '''']"

text \<open>
  Values are typed here, so the conversion is the check that the value has the Python
  type of the field class; \<open>None\<close> passes every conversion. A value of another type is
  reported \<open>invalid\<close> (the coercions the framework attempts between types are not
  modelled).
\<close>

fun to_python :: "ftype \<Rightarrow> val \<Rightarrow> verror + val" where
  "to_python t VNone = Inr VNone"
| "to_python AutoField (VInt i) = Inr (VInt i)"
| "to_python BigIntegerField (VInt i) = Inr (VInt i)"
| "to_python PositiveIntegerField (VInt i) = Inr (VInt i)"
| "to_python PositiveSmallIntegerField (VInt i) = Inr (VInt i)"
| "to_python BooleanField (VBool b) = Inr (VBool b)"
| "to_python CharField (VStr s) = Inr (VStr s)"
| "to_python SlugField (VStr s) = Inr (VStr s)"
| "to_python TextField (VStr s) = Inr (VStr s)"
| "to_python DateField (VDate d) = Inr (VDate d)"
| "to_python (DecimalField m p) (VDec c q) = Inr (VDec c q)"
| "to_python FloatField (VFloat q) = Inr (VFloat q)"
| "to_python (ForeignKey m) (VRef k) = Inr (VRef k)"
| "to_python (OneToOneField m) (VRef k) = Inr (VRef k)"
| "to_python t v = Inl E_invalid"

fun number :: "val \<Rightarrow> rat option" where
  "number (VInt i) = Some (of_int i)"
| "number (VDec c p) = Some (of_int c / 10 ^ p)"
| "number (VFloat q) = Some q"
| "number v = None"

text \<open>
  Modelled from the spec: \<open>date_is_present_or_past\<close> is imported from
  \<open>common.validators\<close>, a module of this repository that is not among the source files.
  The spec says of the dates it guards that they "must not be future" and that
  "a future date is rejected": a date after the current day is an error, any other
  date passes. The first argument is the current day.
\<close>

definition date_is_present_or_past :: "int \<Rightarrow> int \<Rightarrow> verror option" where
  "date_is_present_or_past today d = (if today < d then Some E_not_present_or_past else None)"

text \<open>
  The number of decimal digits of a natural number (\<open>0\<close> has one digit), and the three
  counts \<open>DecimalValidator\<close> takes from a decimal: the digits (those of the coefficient,
  or the decimal places when there are more of these), the decimal places, and the
  digits before the point.
\<close>

fun ndigits :: "nat \<Rightarrow> nat" where
  "ndigits n = (if n < 10 then 1 else Suc (ndigits (n div 10)))"

declare ndigits.simps [simp del]

definition decimal_digits :: "int \<Rightarrow> nat \<Rightarrow> nat" where
  "decimal_digits c p = (if ndigits (nat \<bar>c\<bar>) < p then p else ndigits (nat \<bar>c\<bar>))"

text \<open>The characters of a slug: letters, digits, underscore and hyphen.\<close>

definition slug_chars :: "char list" where
  "slug_chars = ''abcdefghijklmnopqrstuvwxyzABCDEFGHIJKLMNOPQRSTUVWXYZ0123456789_-''"

text \<open>
  One validator on one value: \<open>MinValueValidator\<close> reports a value below its limit,
  \<open>MaxValueValidator\<close> a value above it, \<open>MaxLengthValidator\<close> a string longer than its
  limit, \<open>DecimalValidator\<close> the first of too many digits, too many decimal places, too
  many digits before the point, and \<open>validate_slug\<close> a string that is empty or has a
  character that is not one of a slug. The conversion lets only values of the field's
  type reach a validator; on the others the validators here report nothing.
\<close>

fun run_validator :: "int \<Rightarrow> validator \<Rightarrow> val \<Rightarrow> verror option" where
  "run_validator today (MinValueValidator limit) v =
     (case number v of
        None \<Rightarrow> None
      | Some q \<Rightarrow> if q < limit then Some E_min_value else None)"
| "run_validator today (MaxValueValidator limit) v =
     (case number v of
        None \<Rightarrow> None
      | Some q \<Rightarrow> if limit < q then Some E_max_value else None)"
| "run_validator today (MaxLengthValidator limit) v =
     (case v of
        VStr s \<Rightarrow> if limit < length s then Some E_max_length else None
      | _ \<Rightarrow> None)"
| "run_validator today (DecimalValidator max_digits decimal_places) v =
     (case v of
        VDec c p \<Rightarrow>
          if max_digits < decimal_digits c p then Some E_max_digits
          else if decimal_places < p then Some E_max_decimal_places
          else if max_digits - decimal_places < decimal_digits c p - p
            then Some E_max_whole_digits
          else None
      | _ \<Rightarrow> None)"
| "run_validator today validate_slug v =
     (case v of
        VStr s \<Rightarrow> if s \<noteq> [] \<and> list_all (\<lambda>c. c \<in> set slug_chars) s then None else Some E_invalid
      | _ \<Rightarrow> None)"
| "run_validator today Validator_date_is_present_or_past v =
     (case v of
        VDate d \<Rightarrow> date_is_present_or_past today d
      | _ \<Rightarrow> None)"

text \<open>
  The validators of a field, in the order the framework runs them: the default
  validator of the field class (\<open>validate_slug\<close> for a \<open>SlugField\<close>), those of the
  declaration, for a \<open>CharField\<close> or a \<open>SlugField\<close> with \<open>max_length\<close> the length validator
  the constructor appends, and for a \<open>DecimalField\<close> the digit validator.
\<close>

definition field_validators :: "field \<Rightarrow> validator list" where
  "field_validators f =
     (if ftype f = SlugField then [validate_slug] else []) @
     validators f @
     (case max_length f of
        None \<Rightarrow> []
      | Some n \<Rightarrow> if ftype f = CharField \<or> ftype f = SlugField then [MaxLengthValidator n] else []) @
     (case ftype f of
        DecimalField max_digits decimal_places \<Rightarrow> [DecimalValidator max_digits decimal_places]
      | _ \<Rightarrow> [])"

definition run_validators :: "int \<Rightarrow> field \<Rightarrow> val \<Rightarrow> verror list" where
  "run_validators today f v =
     (if v \<in> set empty_values then []
      else List.map_filter (\<lambda>check. run_validator today check v) (field_validators f))"

text \<open>
  \<open>Field.validate\<close>: a value that is not empty must be one of the choices when the field
  has choices; \<open>None\<close> needs \<open>null=True\<close>; an empty value needs \<open>blank=True\<close>. A relation
  field then checks that the row it points to exists, and a parent link is not checked
  at all.
\<close>

definition validate :: "db \<Rightarrow> field \<Rightarrow> val \<Rightarrow> verror option" where
  "validate d f v =
     (if parent_link f then None
      else if choices f \<noteq> [] \<and> v \<notin> set empty_values then
        (if v \<in> set (map (\<lambda>c. VStr (fst c)) (choices f)) then None else Some E_invalid_choice)
      else if v = VNone \<and> \<not> null f then Some E_null
      else if \<not> blank f \<and> v \<in> set empty_values then Some E_blank
      else
        (case (rel_to (ftype f), v) of
           (Some m, VRef k) \<Rightarrow> if exists_row d (m, k) then None else Some E_invalid
         | _ \<Rightarrow> None))"

definition clean :: "db \<Rightarrow> int \<Rightarrow> field \<Rightarrow> val \<Rightarrow> verror list + val" where
  "clean d today f raw =
     (case to_python (ftype f) raw of
        Inl e \<Rightarrow> Inl [e]
      | Inr v \<Rightarrow>
          (case validate d f v of
             Some e \<Rightarrow> Inl [e]
           | None \<Rightarrow>
               (case run_validators today f v of
                  [] \<Rightarrow> Inr v
                | e # es \<Rightarrow> Inl (e # es))))"

text \<open>
  \<open>Model.clean_fields\<close>: every concrete field is cleaned, except a field with
  \<open>blank=True\<close> whose raw value is empty; the result is the dictionary of the errors by
  field name, and the instance passes when it is empty.
\<close>

definition field_errors :: "db \<Rightarrow> int \<Rightarrow> row \<Rightarrow> field \<Rightarrow> (string \<times> verror list) list" where
  "field_errors d today r f =
     (if blank f \<and> getattr r (name f) \<in> set empty_values then []
      else
        (case clean d today f (getattr r (name f)) of
           Inl es \<Rightarrow> [(name f, es)]
         | Inr v \<Rightarrow> []))"

definition clean_fields :: "db \<Rightarrow> int \<Rightarrow> row \<Rightarrow> (string \<times> verror list) list" where
  "clean_fields d today r = concat (map (field_errors d today r) (concrete_fields (rmodel r)))"

section \<open>Creating an instance\<close>

text \<open>
  \<open>Model.__init__\<close> with keyword arguments: a field that gets no argument takes the
  default of its declaration (\<open>Field.get_default\<close>), which is the declared \<open>default\<close>,
  and without one \<open>None\<close> for a field class that does not allow empty strings or a
  nullable field, the empty string otherwise. A keyword that names no concrete field is a
  \<open>TypeError\<close>. The primary key is passed on its own.
\<close>

datatype py_error = TypeError

fun empty_strings_allowed :: "ftype \<Rightarrow> bool" where
  "empty_strings_allowed CharField = True"
| "empty_strings_allowed SlugField = True"
| "empty_strings_allowed TextField = True"
| "empty_strings_allowed t = False"

definition get_default :: "field \<Rightarrow> val" where
  "get_default f =
     (case default f of
        Some v \<Rightarrow> v
      | None \<Rightarrow> if \<not> empty_strings_allowed (ftype f) \<or> null f then VNone else VStr '''')"

definition model_init :: "model \<Rightarrow> nat \<Rightarrow> (string \<times> val) list \<Rightarrow> py_error + row" where
  "model_init m k kwargs =
     (if list_all (\<lambda>kw. fst kw \<in> set (map name (concrete_fields m))) kwargs then
        Inr \<lparr> rmodel = m, pk = k,
              vals = map (\<lambda>f. (name f,
                              case map_of kwargs (name f) of
                                None \<Rightarrow> get_default f
                              | Some v \<Rightarrow> v))
                         (concrete_fields m) \<rparr>
      else Inl TypeError)"

section \<open>Table constraints and insertion\<close>

text \<open>
  The uniqueness checks of a table: the tuples of \<open>unique_together\<close>, and every single
  field that is unique (declared \<open>unique=True\<close>, a primary key, or a one-to-one field,
  which is unique by construction).
\<close>

fun one_to_one :: "ftype \<Rightarrow> bool" where
  "one_to_one (OneToOneField m) = True"
| "one_to_one _ = False"

definition unique_checks :: "model \<Rightarrow> string list list" where
  "unique_checks m =
     unique_together m @
     map (\<lambda>f. [name f])
       (filter (\<lambda>f. unique f \<or> primary_key f \<or> one_to_one (ftype f)) (columns m))"

text \<open>
  A check fails for a row when none of its values for the fields of the check is \<open>None\<close>
  and another row of the same table has the same values for them.
\<close>

definition unique_check_fails :: "db \<Rightarrow> row \<Rightarrow> string list \<Rightarrow> bool" where
  "unique_check_fails d r ns =
     (VNone \<notin> set (map (getattr r) ns) \<and>
      list_ex (\<lambda>r'. rmodel r' = rmodel r \<and> pk r' \<noteq> pk r \<and>
                     map (getattr r') ns = map (getattr r) ns) d)"

text \<open>A relation column that points to a row that is not there.\<close>

definition dangling :: "db \<Rightarrow> row \<Rightarrow> field \<Rightarrow> bool" where
  "dangling d r f =
     (case (rel_to (ftype f), getattr r (name f)) of
        (Some m, VRef k) \<Rightarrow> \<not> exists_row d (m, k)
      | _ \<Rightarrow> False)"

text \<open>
  The errors of the database layer. \<open>ProtectedError\<close> is the framework's subclass of
  \<open>IntegrityError\<close> raised by the \<open>PROTECT\<close> handler. \<open>DataError\<close> stands for the refusal of a
  value that does not fit its column; depending on the column and on the backend it
  reaches the caller as \<open>DataError\<close>, \<open>OverflowError\<close>, \<open>ValueError\<close> or
  \<open>decimal.InvalidOperation\<close>.
\<close>

datatype db_error = IntegrityError | ProtectedError | DataError

text \<open>
  The columns. An integer column has the range of its type (the framework's
  \<open>integer_field_ranges\<close>), and the column of a positive integer field carries the check
  that the value is not negative. A decimal is brought to the decimal places of its column
  before it is stored (\<open>quantize\<close>, rounding half to even) and is refused when the result
  has more than \<open>max_digits\<close> digits. The column of a \<open>CharField\<close> or \<open>SlugField\<close> holds
  \<open>max_length\<close> characters. A value that is not of the type of its column is refused.
  A backend that enforces less than the declared column types stores some of the rows
  that are refused here.
\<close>

fun integer_field_range :: "ftype \<Rightarrow> (int \<times> int) option" where
  "integer_field_range BigIntegerField = Some (- 9223372036854775808, 9223372036854775807)"
| "integer_field_range PositiveIntegerField = Some (0, 2147483647)"
| "integer_field_range PositiveSmallIntegerField = Some (0, 32767)"
| "integer_field_range t = None"

fun positive_column :: "ftype \<Rightarrow> bool" where
  "positive_column PositiveIntegerField = True"
| "positive_column PositiveSmallIntegerField = True"
| "positive_column t = False"

definition round_half_even :: "int \<Rightarrow> int \<Rightarrow> int" where
  "round_half_even c m =
     (if 2 * (c mod m) < m then c div m
      else if m < 2 * (c mod m) then c div m + 1
      else if even (c div m) then c div m
      else c div m + 1)"

definition quantize :: "int \<Rightarrow> nat \<Rightarrow> nat \<Rightarrow> int" where
  "quantize c p places =
     (if p \<le> places then c * 10 ^ (places - p) else round_half_even c (10 ^ (p - places)))"

definition column_error :: "field \<Rightarrow> val \<Rightarrow> db_error option" where
  "column_error f v =
     (case to_python (ftype f) v of
        Inl e \<Rightarrow> Some DataError
      | Inr VNone \<Rightarrow> None
      | Inr (VInt i) \<Rightarrow>
          (case integer_field_range (ftype f) of
             None \<Rightarrow> None
           | Some (lo, hi) \<Rightarrow>
               if positive_column (ftype f) \<and> i < 0 then Some IntegrityError
               else if i < lo \<or> hi < i then Some DataError
               else None)
      | Inr (VStr s) \<Rightarrow>
          (case max_length f of
             None \<Rightarrow> None
           | Some n \<Rightarrow>
               if (ftype f = CharField \<or> ftype f = SlugField) \<and> n < length s
               then Some DataError else None)
      | Inr (VDec c p) \<Rightarrow>
          (case ftype f of
             DecimalField max_digits places \<Rightarrow>
               if \<bar>quantize c p places\<bar> < 10 ^ max_digits then None else Some DataError
           | _ \<Rightarrow> None)
      | Inr v' \<Rightarrow> None)"

text \<open>
  The value a column stores for a value of the instance (\<open>get_db_prep_save\<close>), and the
  row as the table stores it.
\<close>

definition get_db_prep_save :: "field \<Rightarrow> val \<Rightarrow> val" where
  "get_db_prep_save f v =
     (case (ftype f, v) of
        (DecimalField max_digits places, VDec c p) \<Rightarrow> VDec (quantize c p places) places
      | _ \<Rightarrow> v)"

definition prepared :: "row \<Rightarrow> row" where
  "prepared r =
     r \<lparr> vals :=
           map (\<lambda>nv. (fst nv,
                      case find (\<lambda>f. name f = fst nv) (columns (rmodel r)) of
                        None \<Rightarrow> snd nv
                      | Some f \<Rightarrow> get_db_prep_save f (snd nv)))
             (vals r) \<rparr>"

text \<open>
  Inserting a row: the table rejects a primary key that is taken, \<open>None\<close> in a column
  that is not nullable, a violated uniqueness check and a dangling reference, and then a
  value that its column refuses; otherwise the row is stored. When a row violates
  several of these at once, the error reported here is the first in that order.
\<close>

definition db_insert :: "db \<Rightarrow> row \<Rightarrow> db_error + db" where
  "db_insert d r =
     (if exists_row d (key_of r) then Inl IntegrityError
      else if list_ex (\<lambda>f. \<not> null f \<and> getattr r (name f) = VNone) (columns (rmodel r))
        then Inl IntegrityError
      else if list_ex (unique_check_fails d r) (unique_checks (rmodel r))
        then Inl IntegrityError
      else if list_ex (dangling d r) (columns (rmodel r)) then Inl IntegrityError
      else
        (case List.map_filter (\<lambda>f. column_error f (getattr r (name f))) (columns (rmodel r)) of
           e # es \<Rightarrow> Inl e
         | [] \<Rightarrow> Inr (d @ [prepared r])))"

section \<open>Deletion\<close>

text \<open>
  The relations of the schema: every foreign key and one-to-one field, with the model
  that declares it.
\<close>

definition relation_fields :: "model \<Rightarrow> (model \<times> field) list" where
  "relation_fields m = map (Pair m) (filter (\<lambda>f. rel_to (ftype f) \<noteq> None) (local_fields m))"

definition relations :: "(model \<times> field) list" where
  "relations = concat (map relation_fields declared_models)"

text \<open>
  The handler of a relation. \<open>sales.py\<close> declares two one-to-one fields without
  \<open>on_delete\<close>, which only the versions of the framework that default it to \<open>CASCADE\<close>
  accept.
\<close>

definition handler :: "field \<Rightarrow> on_delete_handler" where
  "handler f = (case on_delete f of None \<Rightarrow> CASCADE | Some h \<Rightarrow> h)"

definition points_at :: "row \<Rightarrow> field \<Rightarrow> key \<Rightarrow> bool" where
  "points_at r f k = (rel_to (ftype f) = Some (fst k) \<and> getattr r (name f) = VRef (snd k))"

definition related_objects :: "db \<Rightarrow> key \<Rightarrow> model \<times> field \<Rightarrow> row list" where
  "related_objects d k mf = filter (\<lambda>r. rmodel r = fst mf \<and> points_at r (snd mf) k) d"

definition protecting :: "db \<Rightarrow> key \<Rightarrow> row list" where
  "protecting d k =
     concat (map (related_objects d k) (filter (\<lambda>mf. handler (snd mf) = PROTECT) relations))"

definition cascading :: "db \<Rightarrow> key \<Rightarrow> key list" where
  "cascading d k =
     map key_of
       (concat (map (related_objects d k) (filter (\<lambda>mf. handler (snd mf) = CASCADE) relations)))"

text \<open>The rows of the parent tables that hold the inherited part of an instance.\<close>

definition parent_keys :: "db \<Rightarrow> key \<Rightarrow> key list" where
  "parent_keys d k =
     concat (map (\<lambda>r.
         concat (map (\<lambda>f.
             case (rel_to (ftype f), getattr r (name f)) of
               (Some m, VRef p) \<Rightarrow> [(m, p)]
             | _ \<Rightarrow> [])
           (filter parent_link (local_fields (fst k)))))
       (filter (\<lambda>r. key_of r = k) d))"

text \<open>
  The collector of \<open>Model.delete\<close>. It visits the object to delete and, through every
  relation that points to a visited object, the objects that refer to it: a referrer
  through a \<open>PROTECT\<close> relation stops the collection with \<open>ProtectedError\<close>, a referrer
  through a \<open>CASCADE\<close> relation is collected in turn, and so is the parent row of a
  collected object. \<open>seen\<close> are the objects collected so far, the last argument those
  still to visit.
\<close>

function collect :: "db \<Rightarrow> key list \<Rightarrow> key list \<Rightarrow> db_error + key list" where
  "collect d seen [] = Inr seen"
| "collect d seen (k # todo) =
     (if k \<in> set seen \<or> \<not> exists_row d k then collect d seen todo
      else if protecting d k \<noteq> [] then Inl ProtectedError
      else collect d (k # seen) (cascading d k @ parent_keys d k @ todo))"
  by pat_completeness auto

lemma unseen_decreases:
  assumes "exists_row d k" and "k \<notin> set seen"
  shows "length (filter (\<lambda>r. key_of r \<notin> set (k # seen)) d)
       < length (filter (\<lambda>r. key_of r \<notin> set seen) d)"
proof -
  from assms(1) obtain r where r: "r \<in> set d" "key_of r = k"
    by (auto simp: exists_row_def)
  have "length (filter (\<lambda>r. key_of r \<notin> set (k # seen)) d)
      = length (filter (\<lambda>r. key_of r \<noteq> k) (filter (\<lambda>r. key_of r \<notin> set seen) d))"
    by (simp add: conj_commute)
  also have "\<dots> < length (filter (\<lambda>r. key_of r \<notin> set seen) d)"
    using r assms(2) by (intro length_filter_less[of r]) auto
  finally show ?thesis .
qed

termination collect
proof (relation "measures [\<lambda>(d, seen, todo). length (filter (\<lambda>r. key_of r \<notin> set seen) d),
                           \<lambda>(d, seen, todo). length todo]")
  show "wf (measures [\<lambda>(d, seen, todo). length (filter (\<lambda>r. key_of r \<notin> set seen) d),
                      \<lambda>(d, seen, todo). length todo])"
    by simp
next
  fix d :: db and seen todo :: "key list" and k :: key
  show "((d, seen, todo), (d, seen, k # todo))
        \<in> measures [\<lambda>(d, seen, todo). length (filter (\<lambda>r. key_of r \<notin> set seen) d),
                     \<lambda>(d, seen, todo). length todo]"
    by simp
next
  fix d :: db and seen todo :: "key list" and k :: key
  assume "\<not> (k \<in> set seen \<or> \<not> exists_row d k)"
  then have "length (filter (\<lambda>r. key_of r \<notin> set (k # seen)) d)
           < length (filter (\<lambda>r. key_of r \<notin> set seen) d)"
    using unseen_decreases[of d k seen] by blast
  then show "((d, k # seen, cascading d k @ parent_keys d k @ todo), (d, seen, k # todo))
        \<in> measures [\<lambda>(d, seen, todo). length (filter (\<lambda>r. key_of r \<notin> set seen) d),
                     \<lambda>(d, seen, todo). length todo]"
    by simp
qed

text \<open>
  \<open>Model.delete\<close>: the collection runs before anything is removed, so an error leaves
  the database as it was; otherwise the collected rows are removed and their number is
  returned.
\<close>

definition delete :: "db \<Rightarrow> key \<Rightarrow> (db_error + nat) \<times> db" where
  "delete d k =
     (case collect d [] [k] of
        Inl e \<Rightarrow> (Inl e, d)
      | Inr ks \<Rightarrow> (Inr (length ks), filter (\<lambda>r. key_of r \<notin> set ks) d))"

section \<open>What a delete reaches\<close>

text \<open>
  The rows the delete of \<open>k\<close> reaches: \<open>k\<close> itself when it is stored and, from a row that
  is reached, every stored row that refers to it through a \<open>CASCADE\<close> relation and its
  stored parent row. A set of keys is closed when it contains what each of its members
  reaches in one step. The set is the specification of the collector, which is what
  computes it (\<open>collect_reached\<close> below).
\<close>

inductive_set reached :: "db \<Rightarrow> key \<Rightarrow> key set" for d :: db and k :: key where
  root: "exists_row d k \<Longrightarrow> k \<in> reached d k"
| step: "k' \<in> reached d k \<Longrightarrow> k'' \<in> set (cascading d k' @ parent_keys d k')
           \<Longrightarrow> exists_row d k'' \<Longrightarrow> k'' \<in> reached d k"

definition cascade_closed :: "db \<Rightarrow> key set \<Rightarrow> bool" where
  "cascade_closed d A =
     (\<forall>k'\<in>A. \<forall>k''\<in>set (cascading d k' @ parent_keys d k'). exists_row d k'' \<longrightarrow> k'' \<in> A)"

section \<open>Display of a choice\<close>

text \<open>
  \<open>get_FIELD_display\<close>: the label of a stored code in the \<open>choices\<close> of the field, the
  code itself when it is not one of them.
\<close>

definition display :: "field \<Rightarrow> string \<Rightarrow> string" where
  "display f s = (case map_of (choices f) s of None \<Rightarrow> s | Some label \<Rightarrow> label)"

section \<open>Assigning a field\<close>

text \<open>
  \<open>setattr\<close> assigns a field of an instance (the first entry for a name is the one
  \<open>getattr\<close> reads).
\<close>

definition setattr :: "row \<Rightarrow> string \<Rightarrow> val \<Rightarrow> row" where
  "setattr r n v = r \<lparr> vals := (n, v) # vals r \<rparr>"

section \<open>Evaluating declarations\<close>

lemmas model_defs =
  FiscalPosition_fields_def CompanyInvoice_fields_def ContactInvoice_fields_def VAT_fields_def
  Product_fields_def InvoiceLine_fields_def InvoiceType_fields_def Invoice_fields_def
  FiscalPositionHasInvoiceTypeAllowed_fields_def ContactInvoiceAR_fields_def
  CompanyInvoiceAR_fields_def WebServiceSession_fields_def PointOfSaleAR_fields_def
  ConceptType_fields_def InvoiceAR_fields_def InvoiceARHasVATSubtotal_fields_def
  ProductCategory_fields_def ProductSales_fields_def QuotationLine_fields_def
  Quotation_fields_def SaleLine_fields_def Sale_fields_def

lemmas field_defs =
  Field_def CompanyInvoice_persons_company_def CompanyInvoice_fiscal_position_def
  CompanyInvoice_fiscal_address_def ContactInvoice_contact_contact_def
  ContactInvoice_fiscal_position_def ContactInvoice_fiscal_address_def VAT_tax_def
  Product_invoice_company_def Product_name_def Product_vat_def InvoiceLine_product_def
  InvoiceLine_discount_def Invoice_invoice_date_def Invoice_status_def
  PointOfSaleAR_invoicear_company_def PointOfSaleAR_afip_id_def
  QuotationLine_product_discount_def Quotation_quotation_date_def Quotation_status_def
  SaleLine_product_discount_def Sale_sale_date_def Sale_status_def

lemmas choices_defs =
  INVOICE_STATUS_TYPES_def INVOICE_STATUSTYPE_DRAFT_def INVOICE_STATUSTYPE_ACCEPTED_def
  INVOICE_STATUSTYPE_AUTHORIZED_def INVOICE_STATUSTYPE_CANCELED_def
  QUOTATION_STATUS_TYPES_def QUOTATION_STATUSTYPE_DRAFT_def QUOTATION_STATUSTYPE_SAVED_def
  QUOTATION_STATUSTYPE_SOLD_def QUOTATION_STATUSTYPE_CANCELED_def
  SALE_STATUS_TYPES_def SALE_STATUSTYPE_DRAFT_def SALE_STATUSTYPE_SAVED_def
  SALE_STATUSTYPE_INVOICED_def SALE_STATUSTYPE_CANCELED_def

lemmas clean_defs =
  clean_def validate_def run_validators_def field_validators_def empty_values_def
  date_is_present_or_past_def

lemma map_of_fields:
  "map_of (map (\<lambda>f. (name f, g f)) fs) n = map_option g (find (\<lambda>f. name f = n) fs)"
  by (induction fs) auto

lemma status_field_Invoice:
  "find (\<lambda>f. name f = ''status'') (concrete_fields Invoice) = Some Invoice_status"
  by (simp add: concrete_fields_def meta_fields_def Invoice_fields_def field_defs)

lemma status_field_InvoiceAR:
  "find (\<lambda>f. name f = ''status'') (concrete_fields InvoiceAR) = Some Invoice_status"
  by (simp add: concrete_fields_def meta_fields_def Invoice_fields_def InvoiceAR_fields_def
      field_defs)

lemma status_field_Quotation:
  "find (\<lambda>f. name f = ''status'') (concrete_fields Quotation) = Some Quotation_status"
  by (simp add: concrete_fields_def meta_fields_def Quotation_fields_def field_defs)

lemma status_field_Sale:
  "find (\<lambda>f. name f = ''status'') (concrete_fields Sale) = Some Sale_status"
  by (simp add: concrete_fields_def meta_fields_def Sale_fields_def field_defs)

lemma init_default:
  assumes "n \<notin> fst ` set kwargs"
    and "list_all (\<lambda>kw. fst kw \<in> set (map name (concrete_fields m))) kwargs"
    and "find (\<lambda>f. name f = n) (concrete_fields m) = Some f"
  shows "\<exists>r. model_init m k kwargs = Inr r \<and> getattr r n = get_default f"
proof -
  from assms(1) have "map_of kwargs n = None"
    by (simp add: map_of_eq_None_iff)
  moreover from assms(3) have "name f = n"
    by (auto simp: find_Some_iff)
  ultimately show ?thesis
    using assms(2,3) by (simp add: model_init_def getattr_def map_of_fields)
qed

section \<open>Range of the fraction fields\<close>

text \<open>
  \<open>VAT.tax\<close> and \<open>InvoiceLine.discount\<close> carry both range validators: a decimal below 0
  or above 1 is an error of the field, with the code of the range validator it breaks.
\<close>

lemma VAT_tax_range:
  assumes "number (VDec c p) = Some q" and "q < 0 \<or> 1 < q"
  shows "\<exists>es. clean d today VAT_tax (VDec c p) = Inl es \<and>
              (E_min_value \<in> set es \<or> E_max_value \<in> set es)"
  using assms
  by (auto simp: field_defs clean_defs split: option.splits list.splits)

lemma InvoiceLine_discount_range:
  assumes "number (VDec c p) = Some q" and "q < 0 \<or> 1 < q"
  shows "\<exists>es. clean d today InvoiceLine_discount (VDec c p) = Inl es \<and>
              (E_min_value \<in> set es \<or> E_max_value \<in> set es)"
  using assms
  by (auto simp: field_defs clean_defs split: option.splits list.splits)

text \<open>
  C1. The claim is that validation rejects every value outside \<open>[0.00, 1.00]\<close> for
  \<open>VAT.tax\<close>, \<open>InvoiceLine.discount\<close>, \<open>QuotationLine.product_discount\<close> and
  \<open>SaleLine.product_discount\<close>. The two \<open>product_discount\<close> fields are float fields
  declared without validators (their \<open>help_text\<close> alone says "A number between 0.00 and
  1.00"), so cleaning accepts every float: the theorem evaluates both fields at an
  arbitrary float \<open>q\<close>, in particular at \<open>1.5\<close> and at \<open>-1\<close>.
\<close>

theorem product_discount_unchecked:
  "clean d today QuotationLine_product_discount (VFloat q) = Inr (VFloat q) \<and>
   clean d today SaleLine_product_discount (VFloat q) = Inr (VFloat q)"
  by (simp add: field_defs clean_defs)

section \<open>Status of a new document\<close>

text \<open>
  C10. An \<open>Invoice\<close> (also as an \<open>InvoiceAR\<close>), a \<open>Quotation\<close> or a \<open>Sale\<close> created from
  keyword arguments that name fields of the model and give no \<open>status\<close> has the status
  code \<open>D\<close>, whose label in the choices of the field is \<open>Draft\<close>.
\<close>

theorem default_status_is_draft:
  assumes "(m, f) \<in> {(Invoice, Invoice_status), (InvoiceAR, Invoice_status),
                      (Quotation, Quotation_status), (Sale, Sale_status)}"
    and "''status'' \<notin> fst ` set kwargs"
    and "list_all (\<lambda>kw. fst kw \<in> set (map name (concrete_fields m))) kwargs"
  shows "\<exists>r. model_init m k kwargs = Inr r \<and> getattr r ''status'' = VStr ''D'' \<and>
             display f ''D'' = ''Draft''"
proof -
  from assms(1) have found: "find (\<lambda>f. name f = ''status'') (concrete_fields m) = Some f"
    by (auto simp: status_field_Invoice status_field_InvoiceAR status_field_Quotation
        status_field_Sale)
  from assms(1) have dflt: "get_default f = VStr ''D''"
    by (auto simp: get_default_def field_defs choices_defs)
  from assms(1) have label: "display f ''D'' = ''Draft''"
    by (auto simp: display_def field_defs choices_defs)
  from init_default[OF assms(2,3) found] dflt label show ?thesis
    by simp
qed

theorem default_status_is_draft_witness:
  "\<exists>r. model_init Sale 1 [(''sale_date'', VDate 5)] = Inr r \<and>
       getattr r ''status'' = VStr ''D'' \<and> display Sale_status ''D'' = ''Draft''"
  using default_status_is_draft[of Sale Sale_status "[(''sale_date'', VDate 5)]" 1]
  by (simp add: concrete_fields_def meta_fields_def Sale_fields_def field_defs)

section \<open>Validation of a whole instance\<close>

lemma clean_fields_member:
  "f \<in> set (concrete_fields (rmodel r)) \<Longrightarrow> e \<in> set (field_errors d today r f)
     \<Longrightarrow> e \<in> set (clean_fields d today r)"
  by (auto simp: clean_fields_def)

lemma clean_fields_empty:
  "clean_fields d today r = [] \<Longrightarrow> f \<in> set (concrete_fields (rmodel r))
     \<Longrightarrow> field_errors d today r f = []"
  by (auto simp: clean_fields_def)

section \<open>Dates of documents\<close>

lemma date_field_clean:
  assumes "f \<in> {Invoice_invoice_date, Quotation_quotation_date, Sale_sale_date}"
  shows "clean d today f (VDate dt) =
     (if today < dt then Inl [E_not_present_or_past] else Inr (VDate dt))"
  using assms by (auto simp add: field_defs clean_defs)

lemma date_field_not_blank:
  assumes "f \<in> {Invoice_invoice_date, Quotation_quotation_date, Sale_sale_date}"
  shows "\<not> blank f"
  using assms by (auto simp add: field_defs)

lemma date_field_member:
  assumes "(m, f) \<in> {(Invoice, Invoice_invoice_date), (InvoiceAR, Invoice_invoice_date),
                      (Quotation, Quotation_quotation_date), (Sale, Sale_sale_date)}"
  shows "f \<in> set (concrete_fields m)"
  using assms
  by (auto simp: concrete_fields_def meta_fields_def Invoice_fields_def InvoiceAR_fields_def
      Quotation_fields_def Sale_fields_def field_defs)

text \<open>
  C3. For the date of an \<open>Invoice\<close> (also as an \<open>InvoiceAR\<close>), a \<open>Quotation\<close> or a
  \<open>Sale\<close>: when the date is after the current day, validation of the instance reports
  the error of \<open>date_is_present_or_past\<close> for that field; when it is the current day or
  before, the field has no error and the date is its cleaned value.
\<close>

theorem future_date_rejected:
  assumes "(m, f) \<in> {(Invoice, Invoice_invoice_date), (InvoiceAR, Invoice_invoice_date),
                      (Quotation, Quotation_quotation_date), (Sale, Sale_sale_date)}"
    and "rmodel r = m"
    and "getattr r (name f) = VDate dt"
  shows "(today < dt \<longrightarrow> (name f, [E_not_present_or_past]) \<in> set (clean_fields d today r)) \<and>
         (dt \<le> today \<longrightarrow> field_errors d today r f = [] \<and>
                            clean d today f (VDate dt) = Inr (VDate dt))"
proof -
  from assms(1) have f: "f \<in> {Invoice_invoice_date, Quotation_quotation_date, Sale_sale_date}"
    by auto
  from date_field_member[OF assms(1)] assms(2)
  have mem: "f \<in> set (concrete_fields (rmodel r))" by simp
  have errs: "field_errors d today r f =
      (if today < dt then [(name f, [E_not_present_or_past])] else [])"
    using date_field_clean[OF f] date_field_not_blank[OF f] assms(3)
    by (simp add: field_errors_def)
  show ?thesis
    using errs clean_fields_member[OF mem, of "(name f, [E_not_present_or_past])" d today]
      date_field_clean[OF f, of d today dt]
    by auto
qed

theorem future_date_rejected_witness:
  "(''invoice_date'', [E_not_present_or_past])
     \<in> set (clean_fields [] 100 \<lparr> rmodel = Invoice, pk = 1, vals = [(''invoice_date'', VDate 101)] \<rparr>) \<and>
   field_errors [] 100 \<lparr> rmodel = Invoice, pk = 1, vals = [(''invoice_date'', VDate 100)] \<rparr>
     Invoice_invoice_date = [] \<and>
   clean [] 100 Invoice_invoice_date (VDate 100) = Inr (VDate 100)"
  using future_date_rejected[of Invoice Invoice_invoice_date
      "\<lparr> rmodel = Invoice, pk = 1, vals = [(''invoice_date'', VDate 101)] \<rparr>" 101 100 "[]"]
    future_date_rejected[of Invoice Invoice_invoice_date
      "\<lparr> rmodel = Invoice, pk = 1, vals = [(''invoice_date'', VDate 100)] \<rparr>" 100 100 "[]"]
  by (simp add: getattr_def Invoice_invoice_date_def Field_def)

section \<open>Status enumerations\<close>

lemma to_python_Inr: "to_python t v = Inr v' \<Longrightarrow> v' = v"
  by (cases t; cases v) auto

lemma choice_of_valid:
  assumes "field_errors d today r f = []" and "choices f \<noteq> []" and "\<not> blank f"
    and "\<not> null f" and "\<not> parent_link f"
  shows "getattr r (name f) \<in> set (map (\<lambda>c. VStr (fst c)) (choices f))"
proof -
  from assms(1,3) obtain v where conv: "to_python (ftype f) (getattr r (name f)) = Inr v"
    and valid: "validate d f v = None"
    by (auto simp: field_errors_def clean_def split: sum.splits option.splits)
  from to_python_Inr[OF conv] have v: "v = getattr r (name f)" .
  from valid assms(2-5) have "v \<in> set (map (\<lambda>c. VStr (fst c)) (choices f))"
    by (auto simp: validate_def empty_values_def split: if_splits)
  with v show ?thesis by simp
qed

lemma status_field_member:
  assumes "(m, f) \<in> {(Invoice, Invoice_status), (InvoiceAR, Invoice_status),
                      (Quotation, Quotation_status), (Sale, Sale_status)}"
  shows "f \<in> set (concrete_fields m)"
  using assms
  by (auto simp: concrete_fields_def meta_fields_def Invoice_fields_def InvoiceAR_fields_def
      Quotation_fields_def Sale_fields_def field_defs)

text \<open>
  C9. An \<open>Invoice\<close> (also as an \<open>InvoiceAR\<close>), a \<open>Quotation\<close> or a \<open>Sale\<close> that passes
  validation has a status that is one of the codes of the choices of its status field,
  and the label of that code is one of \<open>Draft\<close>, \<open>Accepted\<close>, \<open>Authorized\<close>, \<open>Canceled\<close>
  for an invoice, \<open>Draft\<close>, \<open>Saved\<close>, \<open>Sold\<close>, \<open>Canceled\<close> for a quotation and \<open>Draft\<close>,
  \<open>Saved\<close>, \<open>Invoiced\<close>, \<open>Canceled\<close> for a sale.
\<close>

theorem status_in_enumeration:
  assumes "(m, f) \<in> {(Invoice, Invoice_status), (InvoiceAR, Invoice_status),
                      (Quotation, Quotation_status), (Sale, Sale_status)}"
    and "rmodel r = m"
    and "clean_fields d today r = []"
  shows "\<exists>s. getattr r ''status'' = VStr s \<and> (s, display f s) \<in> set (choices f) \<and>
           display f s \<in>
             (if m = Quotation then {''Draft'', ''Saved'', ''Sold'', ''Canceled''}
              else if m = Sale then {''Draft'', ''Saved'', ''Invoiced'', ''Canceled''}
              else {''Draft'', ''Accepted'', ''Authorized'', ''Canceled''})"
proof -
  from status_field_member[OF assms(1)] assms(2)
  have "f \<in> set (concrete_fields (rmodel r))" by simp
  from clean_fields_empty[OF assms(3) this] have ok: "field_errors d today r f = []" .
  from assms(1) have props: "choices f \<noteq> []" "\<not> blank f" "\<not> null f" "\<not> parent_link f"
      "name f = ''status''"
    by (auto simp: field_defs choices_defs)
  from choice_of_valid[OF ok props(1-4)] props(5)
  obtain s where s: "getattr r ''status'' = VStr s" "s \<in> fst ` set (choices f)"
    by auto
  from assms(1) s(2) have "(s, display f s) \<in> set (choices f) \<and>
           display f s \<in>
             (if m = Quotation then {''Draft'', ''Saved'', ''Sold'', ''Canceled''}
              else if m = Sale then {''Draft'', ''Saved'', ''Invoiced'', ''Canceled''}
              else {''Draft'', ''Accepted'', ''Authorized'', ''Canceled''})"
    by (auto simp: display_def field_defs choices_defs)
  with s(1) show ?thesis by blast
qed

theorem status_in_enumeration_witness:
  "\<exists>s. getattr \<lparr> rmodel = Sale, pk = 1,
                  vals = [(''persons_company'', VRef 1), (''sale_date'', VDate 5),
                          (''subtotal'', VDec 0 2), (''total'', VDec 0 2), (''status'', VStr ''S'')] \<rparr>
           ''status'' = VStr s \<and>
       (s, display Sale_status s) \<in> set (choices Sale_status) \<and>
       display Sale_status s \<in> {''Draft'', ''Saved'', ''Invoiced'', ''Canceled''}"
proof -
  let ?r = "\<lparr> rmodel = Sale, pk = 1,
              vals = [(''persons_company'', VRef 1), (''sale_date'', VDate 5),
                      (''subtotal'', VDec 0 2), (''total'', VDec 0 2), (''status'', VStr ''S'')] \<rparr>"
  let ?d = "[\<lparr> rmodel = Company, pk = 1, vals = [] \<rparr>]"
  have h1: "(Sale, Sale_status) \<in> {(Invoice, Invoice_status), (InvoiceAR, Invoice_status),
      (Quotation, Quotation_status), (Sale, Sale_status)}" by simp
  have h2: "rmodel ?r = Sale" by simp
  have h3: "clean_fields ?d 10 ?r = []" by code_simp
  from status_in_enumeration[OF h1 h2 h3] show ?thesis by simp
qed

section \<open>Properties of the collector\<close>

lemma protecting_member:
  "r \<in> set (protecting d k) \<longleftrightarrow>
     r \<in> set d \<and> (\<exists>f. (rmodel r, f) \<in> set relations \<and> handler f = PROTECT \<and> points_at r f k)"
  by (auto simp: protecting_def related_objects_def)

lemma cascading_member:
  "k' \<in> set (cascading d k) \<longleftrightarrow>
     (\<exists>r f. r \<in> set d \<and> key_of r = k' \<and> (rmodel r, f) \<in> set relations \<and>
            handler f = CASCADE \<and> points_at r f k)"
  by (force simp: cascading_def related_objects_def)

lemma delete_protected:
  "exists_row d k \<Longrightarrow> protecting d k \<noteq> [] \<Longrightarrow> delete d k = (Inl ProtectedError, d)"
  by (simp add: delete_def)

lemma collect_error: "collect d seen todo = Inl e \<Longrightarrow> e = ProtectedError"
  by (induction d seen todo rule: collect.induct) (auto split: if_splits)

lemma reached_closed: "cascade_closed d (reached d k)"
  by (auto simp: cascade_closed_def intro: reached.step)

lemma reached_least:
  assumes "cascade_closed d A" and "exists_row d k \<longrightarrow> k \<in> A"
  shows "reached d k \<subseteq> A"
proof
  fix x assume "x \<in> reached d k"
  then show "x \<in> A"
    using assms by (induction rule: reached.induct) (auto simp: cascade_closed_def)
qed

lemma reached_exists: "x \<in> reached d k \<Longrightarrow> exists_row d x"
  by (induction rule: reached.induct) auto

lemma collect_sound:
  assumes "collect d seen todo = Inr ks"
    and "set seen \<subseteq> A"
    and "\<forall>k\<in>set todo. exists_row d k \<longrightarrow> k \<in> A"
    and "cascade_closed d A"
  shows "set ks \<subseteq> A \<and> (\<forall>k'\<in>set ks - set seen. protecting d k' = [])"
  using assms
proof (induction d seen todo rule: collect.induct)
  case (1 d seen)
  then show ?case by auto
next
  case (2 d seen k todo)
  show ?case
  proof (cases "k \<in> set seen \<or> \<not> exists_row d k")
    case True
    with "2.prems"(1) have res: "collect d seen todo = Inr ks" by simp
    from "2.IH"(1)[OF True res "2.prems"(2) _ "2.prems"(4)] "2.prems"(3)
    show ?thesis by simp
  next
    case False
    show ?thesis
    proof (cases "protecting d k = []")
      case False
      with \<open>\<not> (k \<in> set seen \<or> \<not> exists_row d k)\<close> "2.prems"(1) show ?thesis by simp
    next
      case True
      with False "2.prems"(1)
      have res: "collect d (k # seen) (cascading d k @ parent_keys d k @ todo) = Inr ks"
        by simp
      from False "2.prems"(3) have kA: "k \<in> A" by simp
      with "2.prems"(2) have seenA: "set (k # seen) \<subseteq> A" by simp
      have todoA: "\<forall>k'\<in>set (cascading d k @ parent_keys d k @ todo). exists_row d k' \<longrightarrow> k' \<in> A"
        using kA "2.prems"(3,4) by (auto simp: cascade_closed_def)
      from "2.IH"(2)[OF False _ res seenA todoA "2.prems"(4)] True
      have "set ks \<subseteq> A \<and> (\<forall>k'\<in>set ks - set (k # seen). protecting d k' = [])" by simp
      with True show ?thesis by auto
    qed
  qed
qed

lemma collect_fails:
  assumes "collect d seen todo = Inl e"
    and "\<forall>k\<in>set todo. exists_row d k \<longrightarrow> k \<in> A"
    and "cascade_closed d A"
  shows "\<exists>k'\<in>A. protecting d k' \<noteq> []"
  using assms
proof (induction d seen todo rule: collect.induct)
  case (1 d seen)
  then show ?case by simp
next
  case (2 d seen k todo)
  show ?case
  proof (cases "k \<in> set seen \<or> \<not> exists_row d k")
    case True
    with "2.prems"(1) have res: "collect d seen todo = Inl e" by simp
    from "2.IH"(1)[OF True res _ "2.prems"(3)] "2.prems"(2) show ?thesis by simp
  next
    case False
    then have kA: "k \<in> A" using "2.prems"(2) by simp
    show ?thesis
    proof (cases "protecting d k = []")
      case False
      with kA show ?thesis by blast
    next
      case True
      with \<open>\<not> (k \<in> set seen \<or> \<not> exists_row d k)\<close> "2.prems"(1)
      have res: "collect d (k # seen) (cascading d k @ parent_keys d k @ todo) = Inl e"
        by simp
      have todoA: "\<forall>k'\<in>set (cascading d k @ parent_keys d k @ todo). exists_row d k' \<longrightarrow> k' \<in> A"
        using kA "2.prems"(2,3) by (auto simp: cascade_closed_def)
      from "2.IH"(2)[OF \<open>\<not> (k \<in> set seen \<or> \<not> exists_row d k)\<close> _ res todoA "2.prems"(3)] True
      show ?thesis by simp
    qed
  qed
qed

lemma collect_complete:
  assumes "collect d seen todo = Inr ks"
    and "\<forall>k\<in>set seen. \<forall>k''\<in>set (cascading d k @ parent_keys d k).
           exists_row d k'' \<longrightarrow> k'' \<in> set seen \<union> set todo"
  shows "set seen \<subseteq> set ks \<and> (\<forall>k\<in>set todo. exists_row d k \<longrightarrow> k \<in> set ks) \<and>
         cascade_closed d (set ks)"
  using assms
proof (induction d seen todo rule: collect.induct)
  case (1 d seen)
  then show ?case by (auto simp: cascade_closed_def)
next
  case (2 d seen k todo)
  show ?case
  proof (cases "k \<in> set seen \<or> \<not> exists_row d k")
    case True
    with "2.prems"(1) have res: "collect d seen todo = Inr ks" by simp
    have inv: "\<forall>k'\<in>set seen. \<forall>k''\<in>set (cascading d k' @ parent_keys d k').
           exists_row d k'' \<longrightarrow> k'' \<in> set seen \<union> set todo"
      using "2.prems"(2) True by auto
    from "2.IH"(1)[OF True res inv] True show ?thesis by auto
  next
    case False
    show ?thesis
    proof (cases "protecting d k = []")
      case False
      with \<open>\<not> (k \<in> set seen \<or> \<not> exists_row d k)\<close> "2.prems"(1) show ?thesis by simp
    next
      case True
      with False "2.prems"(1)
      have res: "collect d (k # seen) (cascading d k @ parent_keys d k @ todo) = Inr ks"
        by simp
      have inv: "\<forall>k'\<in>set (k # seen). \<forall>k''\<in>set (cascading d k' @ parent_keys d k').
           exists_row d k'' \<longrightarrow> k'' \<in> set (k # seen) \<union> set (cascading d k @ parent_keys d k @ todo)"
        using "2.prems"(2) by auto
      from "2.IH"(2)[OF False _ res inv] True
      have "set (k # seen) \<subseteq> set ks \<and>
         (\<forall>k'\<in>set (cascading d k @ parent_keys d k @ todo). exists_row d k' \<longrightarrow> k' \<in> set ks) \<and>
         cascade_closed d (set ks)"
        by simp
      then show ?thesis by auto
    qed
  qed
qed

lemma collect_distinct:
  "collect d seen todo = Inr ks \<Longrightarrow> distinct seen \<Longrightarrow> distinct ks"
  by (induction d seen todo rule: collect.induct) (auto split: if_splits)

lemma collect_reached:
  assumes "collect d [] [k] = Inr ks"
  shows "set ks = reached d k" and "distinct ks" and "\<forall>k'\<in>reached d k. protecting d k' = []"
proof -
  from collect_sound[OF assms, of "reached d k"] reached_closed[of d k]
  have sub: "set ks \<subseteq> reached d k" and free: "\<forall>k'\<in>set ks. protecting d k' = []"
    by (auto intro: reached.root)
  from collect_complete[OF assms]
  have "exists_row d k \<longrightarrow> k \<in> set ks" and "cascade_closed d (set ks)" by auto
  from reached_least[OF this(2) this(1)] sub show eq: "set ks = reached d k" by auto
  from collect_distinct[OF assms] show "distinct ks" by simp
  from free eq show "\<forall>k'\<in>reached d k. protecting d k' = []" by simp
qed

lemma collect_blocked:
  assumes "collect d [] [k] = Inl e"
  shows "\<exists>k'\<in>reached d k. protecting d k' \<noteq> []"
  using collect_fails[OF assms, of "reached d k"] reached_closed[of d k]
  by (auto intro: reached.root)

text \<open>
  The collector is sound and complete for the rows reached: it stops with
  \<open>ProtectedError\<close> exactly when a row reached has a referrer through a \<open>PROTECT\<close>
  relation, and otherwise collects exactly the rows reached, each once. So a delete
  either changes nothing or removes exactly the rows it reaches.
\<close>

lemma delete_spec:
  "delete d k =
     (if \<exists>k'\<in>reached d k. protecting d k' \<noteq> [] then (Inl ProtectedError, d)
      else (Inr (card (reached d k)), filter (\<lambda>r. key_of r \<notin> reached d k) d))"
proof (cases "collect d [] [k]")
  case (Inl e)
  from collect_blocked[OF Inl] collect_error[OF Inl] Inl show ?thesis
    by (simp add: delete_def)
next
  case (Inr ks)
  from collect_reached[OF Inr] have "set ks = reached d k" "distinct ks"
    "\<not> (\<exists>k'\<in>reached d k. protecting d k' \<noteq> [])"
    by auto
  moreover from this(1,2) have "length ks = card (reached d k)"
    using distinct_card by fastforce
  ultimately show ?thesis using Inr by (simp add: delete_def)
qed

lemma relations_member:
  "(m, f) \<in> set relations \<longleftrightarrow>
     m \<in> set declared_models \<and> f \<in> set (local_fields m) \<and> rel_to (ftype f) \<noteq> None"
  by (auto simp: relations_def relation_fields_def)

lemma protect_targets:
  assumes "m \<in> {Product, Invoice, InvoiceLine, InvoiceAR}"
    and "(m, f) \<in> set relations"
    and "rel_to (ftype f) = Some t"
    and "t \<in> {VAT, Product, Account, FiscalPosition}"
  shows "handler f = PROTECT"
  using assms
  by (auto simp: relations_member model_defs field_defs handler_def)

lemma foreign_keys_checked:
  "list_all (\<lambda>mf. one_to_one (ftype (snd mf)) \<or>
                   mf \<in> set [(CompanyInvoice, CompanyInvoice_fiscal_address),
                              (ContactInvoice, ContactInvoice_fiscal_address)] \<or>
                   on_delete (snd mf) = Some PROTECT) relations"
  by code_simp

lemma foreign_keys_protect:
  assumes "(m, f) \<in> set relations"
  shows "one_to_one (ftype f) \<or>
         (m, f) \<in> {(CompanyInvoice, CompanyInvoice_fiscal_address),
                    (ContactInvoice, ContactInvoice_fiscal_address)} \<or>
         on_delete f = Some PROTECT"
proof -
  from foreign_keys_checked assms
  have "one_to_one (ftype (snd (m, f))) \<or>
        (m, f) \<in> set [(CompanyInvoice, CompanyInvoice_fiscal_address),
                       (ContactInvoice, ContactInvoice_fiscal_address)] \<or>
        on_delete (snd (m, f)) = Some PROTECT"
    unfolding list_all_iff by (rule bspec)
  then show ?thesis by simp
qed

section \<open>Protected references\<close>

text \<open>
  C4. A \<open>VAT\<close>, \<open>Product\<close>, \<open>Account\<close> or \<open>FiscalPosition\<close> row that exists and that a row
  of \<open>Product\<close>, \<open>Invoice\<close>, \<open>InvoiceLine\<close> or \<open>InvoiceAR\<close> refers to, or that any row refers
  to through a relation that is not one-to-one, cannot be deleted: the delete returns
  \<open>ProtectedError\<close> (the framework's subclass of \<open>IntegrityError\<close>) and the database, with
  the target row and every row that refers to it, is the one before the attempt.
\<close>

theorem protected_delete_fails:
  assumes "exists_row d k"
    and "fst k \<in> {VAT, Product, Account, FiscalPosition}"
    and "r \<in> set d"
    and "(rmodel r, f) \<in> set relations"
    and "points_at r f k"
    and "rmodel r \<in> {Product, Invoice, InvoiceLine, InvoiceAR} \<or> \<not> one_to_one (ftype f)"
  shows "delete d k = (Inl ProtectedError, d)"
proof -
  from assms(5) have target: "rel_to (ftype f) = Some (fst k)"
    by (simp add: points_at_def)
  have "handler f = PROTECT"
  proof (cases "rmodel r \<in> {Product, Invoice, InvoiceLine, InvoiceAR}")
    case True
    from protect_targets[OF True assms(4) target assms(2)] show ?thesis .
  next
    case False
    with assms(6) have "\<not> one_to_one (ftype f)" by simp
    moreover from target assms(2)
    have "(rmodel r, f) \<notin> {(CompanyInvoice, CompanyInvoice_fiscal_address),
                              (ContactInvoice, ContactInvoice_fiscal_address)}"
      by (auto simp: field_defs)
    ultimately show ?thesis
      using foreign_keys_protect[OF assms(4)] by (auto simp: handler_def)
  qed
  with assms(3,4,5) have "r \<in> set (protecting d k)"
    by (auto simp: protecting_member)
  then have "protecting d k \<noteq> []" by auto
  from delete_protected[OF assms(1) this] show ?thesis .
qed

theorem protected_delete_fails_witness:
  "delete [ \<lparr> rmodel = VAT, pk = 1, vals = [(''name'', VStr ''21%''), (''tax'', VDec 21 2)] \<rparr>,
            \<lparr> rmodel = Product, pk = 7,
               vals = [(''invoice_company'', VRef 1), (''name'', VStr ''Widget''),
                       (''vat'', VRef 1)] \<rparr> ]
          (VAT, 1)
   = (Inl ProtectedError,
      [ \<lparr> rmodel = VAT, pk = 1, vals = [(''name'', VStr ''21%''), (''tax'', VDec 21 2)] \<rparr>,
        \<lparr> rmodel = Product, pk = 7,
           vals = [(''invoice_company'', VRef 1), (''name'', VStr ''Widget''),
                   (''vat'', VRef 1)] \<rparr> ]) \<and>
   delete [ \<lparr> rmodel = Account, pk = 9, vals = [] \<rparr>,
            \<lparr> rmodel = CompanyInvoice, pk = 1,
               vals = [(''persons_company'', VRef 1), (''legal_name'', VStr ''Acme''),
                       (''default_invoice_debit_account'', VRef 9)] \<rparr> ]
          (Account, 9)
   = (Inl ProtectedError,
      [ \<lparr> rmodel = Account, pk = 9, vals = [] \<rparr>,
        \<lparr> rmodel = CompanyInvoice, pk = 1,
           vals = [(''persons_company'', VRef 1), (''legal_name'', VStr ''Acme''),
                   (''default_invoice_debit_account'', VRef 9)] \<rparr> ])"
proof -
  let ?v = "\<lparr> rmodel = VAT, pk = 1, vals = [(''name'', VStr ''21%''), (''tax'', VDec 21 2)] \<rparr>"
  let ?p = "\<lparr> rmodel = Product, pk = 7,
               vals = [(''invoice_company'', VRef 1), (''name'', VStr ''Widget''),
                       (''vat'', VRef 1)] \<rparr>"
  have v1: "exists_row [?v, ?p] (VAT, 1)" by (simp add: exists_row_def key_of_def)
  have v2: "fst (VAT, 1::nat) \<in> {VAT, Product, Account, FiscalPosition}" by simp
  have v3: "?p \<in> set [?v, ?p]" by simp
  have v4: "(rmodel ?p, Product_vat) \<in> set relations" by code_simp
  have v5: "points_at ?p Product_vat (VAT, 1)"
    by (simp add: points_at_def getattr_def field_defs)
  have v6: "rmodel ?p \<in> {Product, Invoice, InvoiceLine, InvoiceAR} \<or>
      \<not> one_to_one (ftype Product_vat)" by simp
  let ?a = "\<lparr> rmodel = Account, pk = 9, vals = [] \<rparr>"
  let ?c = "\<lparr> rmodel = CompanyInvoice, pk = 1,
               vals = [(''persons_company'', VRef 1), (''legal_name'', VStr ''Acme''),
                       (''default_invoice_debit_account'', VRef 9)] \<rparr>"
  let ?f = "Field ''default_invoice_debit_account'' (ForeignKey Account)
              \<lparr> on_delete := Some PROTECT, null := True, blank := True \<rparr>"
  have a1: "exists_row [?a, ?c] (Account, 9)" by (simp add: exists_row_def key_of_def)
  have a2: "fst (Account, 9::nat) \<in> {VAT, Product, Account, FiscalPosition}" by simp
  have a3: "?c \<in> set [?a, ?c]" by simp
  have a4: "(rmodel ?c, ?f) \<in> set relations" by code_simp
  have a5: "points_at ?c ?f (Account, 9)"
    by (simp add: points_at_def getattr_def field_defs)
  have a6: "rmodel ?c \<in> {Product, Invoice, InvoiceLine, InvoiceAR} \<or> \<not> one_to_one (ftype ?f)"
    by (simp add: field_defs)
  from protected_delete_fails[OF v1 v2 v3 v4 v5 v6] protected_delete_fails[OF a1 a2 a3 a4 a5 a6]
  show ?thesis by simp
qed

section \<open>Which relations cascade\<close>

text \<open>
  C2, as stated, fails: \<open>CompanyInvoice.fiscal_address\<close> is a foreign key, not a
  one-to-one field, and it is declared with \<open>on_delete=CASCADE\<close>, so deleting the
  \<open>PhysicalAddress\<close> deletes the \<open>CompanyInvoice\<close> whose fiscal address it is.
\<close>

theorem fiscal_address_cascades_counterexample:
  "ftype CompanyInvoice_fiscal_address = ForeignKey PhysicalAddress \<and>
   (CompanyInvoice, CompanyInvoice_fiscal_address) \<in> set relations \<and>
   delete [ \<lparr> rmodel = PhysicalAddress, pk = 1, vals = [] \<rparr>,
            \<lparr> rmodel = Company, pk = 1, vals = [] \<rparr>,
            \<lparr> rmodel = CompanyInvoice, pk = 1,
               vals = [(''persons_company'', VRef 1), (''legal_name'', VStr ''Acme''),
                       (''fiscal_address'', VRef 1)] \<rparr> ]
          (PhysicalAddress, 1)
   = (Inr 2, [ \<lparr> rmodel = Company, pk = 1, vals = [] \<rparr> ])"
  by code_simp

lemma cascades_checked:
  "list_all (\<lambda>mf. one_to_one (ftype (snd mf)) \<or>
                   mf \<in> set [(CompanyInvoice, CompanyInvoice_fiscal_address),
                              (ContactInvoice, ContactInvoice_fiscal_address)]
                   \<longrightarrow> handler (snd mf) = CASCADE) relations"
  by code_simp

lemma cascading_relations:
  assumes "(m, f) \<in> set relations"
    and "one_to_one (ftype f) \<or>
         (m, f) \<in> {(CompanyInvoice, CompanyInvoice_fiscal_address),
                    (ContactInvoice, ContactInvoice_fiscal_address)}"
  shows "handler f = CASCADE"
proof -
  from cascades_checked assms(1)
  have "one_to_one (ftype (snd (m, f))) \<or>
        (m, f) \<in> set [(CompanyInvoice, CompanyInvoice_fiscal_address),
                       (ContactInvoice, ContactInvoice_fiscal_address)]
        \<longrightarrow> handler (snd (m, f)) = CASCADE"
    unfolding list_all_iff by (rule bspec)
  with assms(2) show ?thesis by simp
qed

lemma cascading_reached:
  assumes "r \<in> set d" and "(rmodel r, f) \<in> set relations" and "handler f = CASCADE"
    and "points_at r f k" and "exists_row d k"
  shows "key_of r \<in> reached d k"
proof -
  from assms(1-4) have "key_of r \<in> set (cascading d k)"
    by (auto simp: cascading_member)
  moreover from assms(1) have "exists_row d (key_of r)"
    by (auto simp: exists_row_def)
  ultimately show ?thesis
    using reached.step[OF reached.root[OF assms(5)], of "key_of r"] by simp
qed

text \<open>
  C2, amended. The relations that cascade are the one-to-one links and two foreign keys,
  \<open>CompanyInvoice.fiscal_address\<close> and \<open>ContactInvoice.fiscal_address\<close>: a row that refers to
  \<open>k\<close> through one of them is reached by the delete of \<open>k\<close>, and that delete fails with
  \<open>ProtectedError\<close> and changes nothing when a row it reaches has a referrer through a
  \<open>PROTECT\<close> relation, and otherwise removes exactly the rows it reaches, the referring
  row among them. Every other foreign key is declared \<open>PROTECT\<close>: deleting a stored row
  that another row refers to through it fails with \<open>ProtectedError\<close> and changes nothing.
\<close>

theorem relation_cascades_or_protects:
  assumes "(m, f) \<in> set relations"
    and "r \<in> set d"
    and "rmodel r = m"
    and "points_at r f k"
    and "exists_row d k"
  shows "if one_to_one (ftype f) \<or>
            (m, f) \<in> {(CompanyInvoice, CompanyInvoice_fiscal_address),
                       (ContactInvoice, ContactInvoice_fiscal_address)}
         then handler f = CASCADE \<and> key_of r \<in> reached d k \<and>
              (if \<exists>k'\<in>reached d k. protecting d k' \<noteq> []
               then delete d k = (Inl ProtectedError, d)
               else delete d k = (Inr (card (reached d k)),
                                   filter (\<lambda>r'. key_of r' \<notin> reached d k) d) \<and>
                    r \<notin> set (snd (delete d k)))
         else on_delete f = Some PROTECT \<and> delete d k = (Inl ProtectedError, d)"
proof (cases "one_to_one (ftype f) \<or>
            (m, f) \<in> {(CompanyInvoice, CompanyInvoice_fiscal_address),
                       (ContactInvoice, ContactInvoice_fiscal_address)}")
  case True
  from cascading_relations[OF assms(1) True] have h: "handler f = CASCADE" .
  from cascading_reached[OF assms(2) _ h assms(4,5)] assms(1,3)
  have reach: "key_of r \<in> reached d k" by simp
  have outcome: "if \<exists>k'\<in>reached d k. protecting d k' \<noteq> []
        then delete d k = (Inl ProtectedError, d)
        else delete d k = (Inr (card (reached d k)),
                            filter (\<lambda>r'. key_of r' \<notin> reached d k) d) \<and>
             r \<notin> set (snd (delete d k))"
  proof (cases "\<exists>k'\<in>reached d k. protecting d k' \<noteq> []")
    case True
    then have "delete d k = (Inl ProtectedError, d)"
      by (subst delete_spec) (simp only: if_True)
    then show ?thesis by (subst if_P[OF True])
  next
    case False
    then have del: "delete d k = (Inr (card (reached d k)),
                            filter (\<lambda>r'. key_of r' \<notin> reached d k) d)"
      by (subst delete_spec) (simp only: if_False)
    with reach have "r \<notin> set (snd (delete d k))" by simp
    with del have succeeded: "delete d k = (Inr (card (reached d k)),
                            filter (\<lambda>r'. key_of r' \<notin> reached d k) d) \<and>
             r \<notin> set (snd (delete d k))" by (intro conjI)
    show ?thesis by (subst if_not_P[OF False]) (rule succeeded)
  qed
  show ?thesis
    by (subst if_P[OF True]) (intro conjI h reach outcome)
next
  case False
  with foreign_keys_protect[OF assms(1)] have protect: "on_delete f = Some PROTECT" by auto
  then have "handler f = PROTECT" by (simp add: handler_def)
  with assms(1-4) have "r \<in> set (protecting d k)"
    by (auto simp: protecting_member)
  then have "protecting d k \<noteq> []" by auto
  from delete_protected[OF assms(5) this]
  have blocked: "delete d k = (Inl ProtectedError, d)" .
  show ?thesis
    by (subst if_not_P[OF False]) (intro conjI protect blocked)
qed

theorem relation_cascades_or_protects_witness:
  "handler ContactInvoice_fiscal_address = CASCADE \<and>
   delete [ \<lparr> rmodel = PhysicalAddress, pk = 2, vals = [] \<rparr>,
            \<lparr> rmodel = Contact, pk = 1, vals = [] \<rparr>,
            \<lparr> rmodel = ContactInvoice, pk = 1,
               vals = [(''contact_contact'', VRef 1), (''legal_name'', VStr ''Ann''),
                       (''fiscal_position'', VRef 1), (''fiscal_address'', VRef 2)] \<rparr> ]
          (PhysicalAddress, 2)
   = (Inr 2, [ \<lparr> rmodel = Contact, pk = 1, vals = [] \<rparr> ]) \<and>
   on_delete PointOfSaleAR_invoicear_company = Some PROTECT \<and>
   delete [ \<lparr> rmodel = CompanyInvoiceAR, pk = 3, vals = [(''invoice_company'', VRef 1)] \<rparr>,
            \<lparr> rmodel = PointOfSaleAR, pk = 5,
               vals = [(''invoicear_company'', VRef 3), (''afip_id'', VInt 2)] \<rparr> ]
          (CompanyInvoiceAR, 3)
   = (Inl ProtectedError,
      [ \<lparr> rmodel = CompanyInvoiceAR, pk = 3, vals = [(''invoice_company'', VRef 1)] \<rparr>,
        \<lparr> rmodel = PointOfSaleAR, pk = 5,
           vals = [(''invoicear_company'', VRef 3), (''afip_id'', VInt 2)] \<rparr> ])"
proof -
  let ?a = "\<lparr> rmodel = PhysicalAddress, pk = 2, vals = [] \<rparr>"
  let ?n = "\<lparr> rmodel = Contact, pk = 1, vals = [] \<rparr>"
  let ?i = "\<lparr> rmodel = ContactInvoice, pk = 1,
               vals = [(''contact_contact'', VRef 1), (''legal_name'', VStr ''Ann''),
                       (''fiscal_position'', VRef 1), (''fiscal_address'', VRef 2)] \<rparr>"
  have c1: "(ContactInvoice, ContactInvoice_fiscal_address) \<in> set relations" by code_simp
  have c2: "?i \<in> set [?a, ?n, ?i]" by simp
  have c3: "rmodel ?i = ContactInvoice" by simp
  have c4: "points_at ?i ContactInvoice_fiscal_address (PhysicalAddress, 2)"
    by (simp add: points_at_def getattr_def field_defs)
  have c5: "exists_row [?a, ?n, ?i] (PhysicalAddress, 2)"
    by (simp add: exists_row_def key_of_def)
  have del: "delete [?a, ?n, ?i] (PhysicalAddress, 2) = (Inr 2, [?n])" by code_simp
  have c6: "one_to_one (ftype ContactInvoice_fiscal_address) \<or>
            (ContactInvoice, ContactInvoice_fiscal_address)
              \<in> {(CompanyInvoice, CompanyInvoice_fiscal_address),
                  (ContactInvoice, ContactInvoice_fiscal_address)}"
    by simp
  from relation_cascades_or_protects[OF c1 c2 c3 c4 c5]
  have cascade: "handler ContactInvoice_fiscal_address = CASCADE"
    by (subst (asm) if_P[OF c6]) (rule conjunct1)
  let ?c = "\<lparr> rmodel = CompanyInvoiceAR, pk = 3, vals = [(''invoice_company'', VRef 1)] \<rparr>"
  let ?p = "\<lparr> rmodel = PointOfSaleAR, pk = 5,
               vals = [(''invoicear_company'', VRef 3), (''afip_id'', VInt 2)] \<rparr>"
  have p1: "(PointOfSaleAR, PointOfSaleAR_invoicear_company) \<in> set relations" by code_simp
  have p2: "?p \<in> set [?c, ?p]" by simp
  have p3: "rmodel ?p = PointOfSaleAR" by simp
  have p4: "points_at ?p PointOfSaleAR_invoicear_company (CompanyInvoiceAR, 3)"
    by (simp add: points_at_def getattr_def field_defs)
  have p5: "exists_row [?c, ?p] (CompanyInvoiceAR, 3)"
    by (simp add: exists_row_def key_of_def)
  have p6: "\<not> (one_to_one (ftype PointOfSaleAR_invoicear_company) \<or>
            (PointOfSaleAR, PointOfSaleAR_invoicear_company)
              \<in> {(CompanyInvoice, CompanyInvoice_fiscal_address),
                  (ContactInvoice, ContactInvoice_fiscal_address)})"
    by (simp add: field_defs)
  from relation_cascades_or_protects[OF p1 p2 p3 p4 p5]
  have protect: "on_delete PointOfSaleAR_invoicear_company = Some PROTECT \<and>
        delete [?c, ?p] (CompanyInvoiceAR, 3) = (Inl ProtectedError, [?c, ?p])"
    by (subst (asm) if_not_P[OF p6])
  from cascade del protect show ?thesis by (intro conjI) (erule conjunct1 conjunct2 | assumption)+
qed

section \<open>Cascade to the extension records\<close>

text \<open>
  C5, as stated, fails: a \<open>Company\<close> with a \<open>CompanyInvoice\<close> that a \<open>Product\<close> belongs to
  cannot be deleted. The cascade reaches the \<open>CompanyInvoice\<close>, the \<open>PROTECT\<close> foreign key
  \<open>Product.invoice_company\<close> stops it, and the extension record is still there.
\<close>

theorem cascade_blocked_counterexample:
  "delete [ \<lparr> rmodel = Company, pk = 1, vals = [] \<rparr>,
            \<lparr> rmodel = CompanyInvoice, pk = 1,
               vals = [(''persons_company'', VRef 1), (''legal_name'', VStr ''Acme'')] \<rparr>,
            \<lparr> rmodel = VAT, pk = 1, vals = [(''name'', VStr ''21%''), (''tax'', VDec 21 2)] \<rparr>,
            \<lparr> rmodel = Product, pk = 7,
               vals = [(''invoice_company'', VRef 1), (''name'', VStr ''Widget''),
                       (''vat'', VRef 1)] \<rparr> ]
          (Company, 1)
   = (Inl ProtectedError,
      [ \<lparr> rmodel = Company, pk = 1, vals = [] \<rparr>,
        \<lparr> rmodel = CompanyInvoice, pk = 1,
           vals = [(''persons_company'', VRef 1), (''legal_name'', VStr ''Acme'')] \<rparr>,
        \<lparr> rmodel = VAT, pk = 1, vals = [(''name'', VStr ''21%''), (''tax'', VDec 21 2)] \<rparr>,
        \<lparr> rmodel = Product, pk = 7,
           vals = [(''invoice_company'', VRef 1), (''name'', VStr ''Widget''),
                   (''vat'', VRef 1)] \<rparr> ])"
  by code_simp

lemma extension_relation:
  assumes "(m, e, f) \<in> {(Company, CompanyInvoice, CompanyInvoice_persons_company),
                         (Contact, ContactInvoice, ContactInvoice_contact_contact)}"
  shows "(e, f) \<in> set relations \<and> on_delete f = Some CASCADE \<and> ftype f = OneToOneField m"
  using assms
  by (auto simp: relations_member declared_models_def CompanyInvoice_fields_def
      ContactInvoice_fields_def field_defs)

text \<open>
  C5, amended. The link from \<open>CompanyInvoice\<close> to \<open>Company\<close> and the link from
  \<open>ContactInvoice\<close> to \<open>Contact\<close> are declared \<open>CASCADE\<close>, so the delete of a stored
  \<open>Company\<close> or \<open>Contact\<close> reaches every extension row that points at it. When no row the
  delete reaches has a referrer through a \<open>PROTECT\<close> relation, the delete succeeds and
  removes exactly the rows it reaches: afterwards the entity is gone and no row of the
  extension model points at it. Otherwise, and only then, it fails with \<open>ProtectedError\<close>
  and the database is unchanged.
\<close>

theorem cascade_unless_protected:
  assumes "(m, e, f) \<in> {(Company, CompanyInvoice, CompanyInvoice_persons_company),
                         (Contact, ContactInvoice, ContactInvoice_contact_contact)}"
    and "exists_row d (m, c)"
  shows "on_delete f = Some CASCADE \<and>
         (\<forall>r\<in>set d. rmodel r = e \<and> points_at r f (m, c) \<longrightarrow> key_of r \<in> reached d (m, c)) \<and>
         (if \<exists>k'\<in>reached d (m, c). protecting d k' \<noteq> []
          then delete d (m, c) = (Inl ProtectedError, d)
          else delete d (m, c) = (Inr (card (reached d (m, c))),
                                   filter (\<lambda>r. key_of r \<notin> reached d (m, c)) d) \<and>
               \<not> exists_row (snd (delete d (m, c))) (m, c) \<and>
               list_all (\<lambda>r. \<not> (rmodel r = e \<and> points_at r f (m, c)))
                 (snd (delete d (m, c))))"
proof -
  note rel = extension_relation[OF assms(1)]
  then have h: "handler f = CASCADE" by (simp add: handler_def)
  have ext: "\<forall>r\<in>set d. rmodel r = e \<and> points_at r f (m, c) \<longrightarrow> key_of r \<in> reached d (m, c)"
    using cascading_reached[OF _ _ h _ assms(2)] rel by auto
  have root: "(m, c) \<in> reached d (m, c)"
    using assms(2) by (rule reached.root)
  have outcome: "if \<exists>k'\<in>reached d (m, c). protecting d k' \<noteq> []
        then delete d (m, c) = (Inl ProtectedError, d)
        else delete d (m, c) = (Inr (card (reached d (m, c))),
                                 filter (\<lambda>r. key_of r \<notin> reached d (m, c)) d) \<and>
             \<not> exists_row (snd (delete d (m, c))) (m, c) \<and>
             list_all (\<lambda>r. \<not> (rmodel r = e \<and> points_at r f (m, c)))
               (snd (delete d (m, c)))"
  proof (cases "\<exists>k'\<in>reached d (m, c). protecting d k' \<noteq> []")
    case True
    then have "delete d (m, c) = (Inl ProtectedError, d)"
      by (subst delete_spec) (simp only: if_True)
    then show ?thesis by (subst if_P[OF True])
  next
    case False
    then have del: "delete d (m, c) = (Inr (card (reached d (m, c))),
                                 filter (\<lambda>r. key_of r \<notin> reached d (m, c)) d)"
      by (subst delete_spec) (simp only: if_False)
    have gone: "\<not> exists_row (filter (\<lambda>r. key_of r \<notin> reached d (m, c)) d) (m, c)"
      using root by (auto simp: exists_row_def)
    have none: "list_all (\<lambda>r. \<not> (rmodel r = e \<and> points_at r f (m, c)))
        (filter (\<lambda>r. key_of r \<notin> reached d (m, c)) d)"
      using ext by (auto simp: list_all_iff)
    from del have rest: "snd (delete d (m, c)) = filter (\<lambda>r. key_of r \<notin> reached d (m, c)) d"
      by simp
    from del gone none have succeeded:
      "delete d (m, c) = (Inr (card (reached d (m, c))),
                          filter (\<lambda>r. key_of r \<notin> reached d (m, c)) d) \<and>
       \<not> exists_row (snd (delete d (m, c))) (m, c) \<and>
       list_all (\<lambda>r. \<not> (rmodel r = e \<and> points_at r f (m, c))) (snd (delete d (m, c)))"
      unfolding rest by (intro conjI)
    show ?thesis
      by (subst if_not_P[OF False]) (rule succeeded)
  qed
  from rel have "on_delete f = Some CASCADE" by simp
  with ext outcome show ?thesis by (intro conjI)
qed

theorem cascade_unless_protected_witness:
  "on_delete CompanyInvoice_persons_company = Some CASCADE \<and>
   delete [ \<lparr> rmodel = Company, pk = 1, vals = [] \<rparr>,
            \<lparr> rmodel = Company, pk = 2, vals = [] \<rparr>,
            \<lparr> rmodel = CompanyInvoice, pk = 1,
               vals = [(''persons_company'', VRef 1), (''legal_name'', VStr ''Acme'')] \<rparr>,
            \<lparr> rmodel = CompanyInvoice, pk = 2,
               vals = [(''persons_company'', VRef 2), (''legal_name'', VStr ''Bolt'')] \<rparr> ]
          (Company, 1)
   = (Inr 2, [ \<lparr> rmodel = Company, pk = 2, vals = [] \<rparr>,
               \<lparr> rmodel = CompanyInvoice, pk = 2,
                  vals = [(''persons_company'', VRef 2), (''legal_name'', VStr ''Bolt'')] \<rparr> ]) \<and>
   \<not> exists_row [ \<lparr> rmodel = Company, pk = 2, vals = [] \<rparr>,
                  \<lparr> rmodel = CompanyInvoice, pk = 2,
                     vals = [(''persons_company'', VRef 2), (''legal_name'', VStr ''Bolt'')] \<rparr> ]
                (Company, 1) \<and>
   list_all (\<lambda>r. \<not> (rmodel r = CompanyInvoice \<and>
                     points_at r CompanyInvoice_persons_company (Company, 1)))
     [ \<lparr> rmodel = Company, pk = 2, vals = [] \<rparr>,
       \<lparr> rmodel = CompanyInvoice, pk = 2,
          vals = [(''persons_company'', VRef 2), (''legal_name'', VStr ''Bolt'')] \<rparr> ]"
proof -
  let ?d = "[ \<lparr> rmodel = Company, pk = 1, vals = [] \<rparr>,
            \<lparr> rmodel = Company, pk = 2, vals = [] \<rparr>,
            \<lparr> rmodel = CompanyInvoice, pk = 1,
               vals = [(''persons_company'', VRef 1), (''legal_name'', VStr ''Acme'')] \<rparr>,
            \<lparr> rmodel = CompanyInvoice, pk = 2,
               vals = [(''persons_company'', VRef 2), (''legal_name'', VStr ''Bolt'')] \<rparr> ]"
  have h1: "(Company, CompanyInvoice, CompanyInvoice_persons_company)
      \<in> {(Company, CompanyInvoice, CompanyInvoice_persons_company),
          (Contact, ContactInvoice, ContactInvoice_contact_contact)}" by simp
  have h2: "exists_row ?d (Company, 1)" by (simp add: exists_row_def key_of_def)
  have del: "delete ?d (Company, 1)
      = (Inr 2, [ \<lparr> rmodel = Company, pk = 2, vals = [] \<rparr>,
               \<lparr> rmodel = CompanyInvoice, pk = 2,
                  vals = [(''persons_company'', VRef 2), (''legal_name'', VStr ''Bolt'')] \<rparr> ])"
    by code_simp
  from cascade_unless_protected[OF h1 h2]
  have declared: "on_delete CompanyInvoice_persons_company = Some CASCADE"
    and outcome: "if \<exists>k'\<in>reached ?d (Company, 1). protecting ?d k' \<noteq> []
          then delete ?d (Company, 1) = (Inl ProtectedError, ?d)
          else delete ?d (Company, 1) = (Inr (card (reached ?d (Company, 1))),
                                   filter (\<lambda>r. key_of r \<notin> reached ?d (Company, 1)) ?d) \<and>
               \<not> exists_row (snd (delete ?d (Company, 1))) (Company, 1) \<and>
               list_all (\<lambda>r. \<not> (rmodel r = CompanyInvoice \<and>
                                 points_at r CompanyInvoice_persons_company (Company, 1)))
                 (snd (delete ?d (Company, 1)))"
    by blast+
  have free: "\<not> (\<exists>k'\<in>reached ?d (Company, 1). protecting ?d k' \<noteq> [])"
  proof
    assume "\<exists>k'\<in>reached ?d (Company, 1). protecting ?d k' \<noteq> []"
    from outcome[unfolded if_P[OF this]]
    have "delete ?d (Company, 1) = (Inl ProtectedError, ?d)" .
    with del show False by simp
  qed
  have rest: "snd (delete ?d (Company, 1))
      = [ \<lparr> rmodel = Company, pk = 2, vals = [] \<rparr>,
          \<lparr> rmodel = CompanyInvoice, pk = 2,
             vals = [(''persons_company'', VRef 2), (''legal_name'', VStr ''Bolt'')] \<rparr> ]"
    by (subst del) (rule snd_conv)
  from outcome[unfolded if_not_P[OF free]] have
    "\<not> exists_row (snd (delete ?d (Company, 1))) (Company, 1) \<and>
     list_all (\<lambda>r. \<not> (rmodel r = CompanyInvoice \<and>
                       points_at r CompanyInvoice_persons_company (Company, 1)))
       (snd (delete ?d (Company, 1)))"
    by (rule conjunct2)
  then have
    "\<not> exists_row [ \<lparr> rmodel = Company, pk = 2, vals = [] \<rparr>,
                  \<lparr> rmodel = CompanyInvoice, pk = 2,
                     vals = [(''persons_company'', VRef 2), (''legal_name'', VStr ''Bolt'')] \<rparr> ]
                (Company, 1) \<and>
     list_all (\<lambda>r. \<not> (rmodel r = CompanyInvoice \<and>
                       points_at r CompanyInvoice_persons_company (Company, 1)))
       [ \<lparr> rmodel = Company, pk = 2, vals = [] \<rparr>,
         \<lparr> rmodel = CompanyInvoice, pk = 2,
            vals = [(''persons_company'', VRef 2), (''legal_name'', VStr ''Bolt'')] \<rparr> ]"
    unfolding rest .
  with declared del show ?thesis by (intro conjI) (erule conjunct1 conjunct2 | assumption)+
qed

section \<open>Uniqueness constraints\<close>

lemma map_filter_Nil:
  "List.map_filter g xs = [] \<longleftrightarrow> (\<forall>x\<in>set xs. g x = None)"
  by (induction xs) (auto simp: List.map_filter_simps split: option.splits)

lemma prepared_no_decimal:
  assumes "\<forall>f\<in>set (columns (rmodel r)). \<forall>m p. ftype f \<noteq> DecimalField m p"
  shows "prepared r = r"
proof -
  have "map (\<lambda>nv. (fst nv,
                   case find (\<lambda>f. name f = fst nv) (columns (rmodel r)) of
                     None \<Rightarrow> snd nv
                   | Some f \<Rightarrow> get_db_prep_save f (snd nv))) (vals r) = vals r"
  proof (rule map_idI)
    fix nv assume "nv \<in> set (vals r)"
    show "(fst nv,
           case find (\<lambda>f. name f = fst nv) (columns (rmodel r)) of
             None \<Rightarrow> snd nv
           | Some f \<Rightarrow> get_db_prep_save f (snd nv)) = nv"
    proof (cases "find (\<lambda>f. name f = fst nv) (columns (rmodel r))")
      case None
      then show ?thesis by simp
    next
      case (Some f)
      then have "f \<in> set (columns (rmodel r))"
        by (auto simp: find_Some_iff)
      with assms have "\<forall>m p. ftype f \<noteq> DecimalField m p" by blast
      then have "get_db_prep_save f (snd nv) = snd nv"
        by (cases "ftype f") (auto simp: get_db_prep_save_def)
      with Some show ?thesis by simp
    qed
  qed
  then show ?thesis by (simp add: prepared_def)
qed

lemma getattr_setattr:
  "getattr (setattr r n v) n' = (if n' = n then v else getattr r n')"
  by (simp add: getattr_def setattr_def)



lemma same_table_other_pk:
  assumes "p \<in> set d" and "rmodel p = rmodel r" and "\<not> exists_row d (key_of r)"
  shows "pk p \<noteq> pk r"
proof
  assume "pk p = pk r"
  with assms(2) have "key_of p = key_of r" by (simp add: key_of_def)
  moreover from assms(1) have "key_of p \<in> key_of ` set d" by (rule imageI)
  ultimately have "exists_row d (key_of r)" by (simp add: exists_row_def)
  with assms(3) show False by simp
qed





lemma columns_PointOfSaleAR:
  "columns PointOfSaleAR = PointOfSaleAR_fields"
  by (simp add: columns_def PointOfSaleAR_fields_def field_defs)

lemma unique_checks_PointOfSaleAR:
  "unique_checks PointOfSaleAR = [[''invoicear_company'', ''afip_id'']]"
  by (simp add: unique_checks_def columns_PointOfSaleAR PointOfSaleAR_fields_def field_defs)

lemma point_of_sale_duplicate_rejected:
  assumes "rmodel r = PointOfSaleAR" and "p \<in> set d" and "rmodel p = PointOfSaleAR"
    and "getattr p ''invoicear_company'' = getattr r ''invoicear_company''"
    and "getattr p ''afip_id'' = getattr r ''afip_id''"
  shows "db_insert d r = Inl IntegrityError"
proof (cases "exists_row d (key_of r) \<or>
    getattr r ''invoicear_company'' = VNone \<or> getattr r ''afip_id'' = VNone")
  case True
  then show ?thesis
    using assms(1)
    by (auto simp: db_insert_def columns_PointOfSaleAR PointOfSaleAR_fields_def field_defs)
next
  case False
  with same_table_other_pk[of p d r] assms have "pk p \<noteq> pk r" by simp
  with assms False have "unique_check_fails d r [''invoicear_company'', ''afip_id'']"
    by (auto simp: unique_check_fails_def list_ex_iff)
  with assms(1) show ?thesis
    by (simp add: db_insert_def unique_checks_PointOfSaleAR)
qed

lemma prepared_PointOfSaleAR: "rmodel r = PointOfSaleAR \<Longrightarrow> prepared r = r"
  by (rule prepared_no_decimal)
    (simp add: columns_PointOfSaleAR PointOfSaleAR_fields_def field_defs)

lemma point_of_sale_accepted:
  assumes "rmodel r = PointOfSaleAR" and "\<not> exists_row d (key_of r)"
    and "getattr r ''invoicear_company'' = VRef c" and "exists_row d (CompanyInvoiceAR, c)"
    and "getattr r ''afip_id'' = VInt a" and "0 \<le> a" and "a \<le> 32767"
    and "getattr r ''fantasy_name'' = VStr n" and "length n \<le> 150"
    and "getattr r ''point_of_sale_type'' = VStr t" and "length t \<le> 1"
    and "getattr r ''fiscal_address'' = VRef b" and "exists_row d (PhysicalAddress, b)"
    and "getattr r ''is_inactive'' = VBool i"
    and "\<forall>p\<in>set d. rmodel p = PointOfSaleAR \<and> getattr p ''afip_id'' = VInt a
           \<longrightarrow> getattr p ''invoicear_company'' \<noteq> VRef c"
  shows "db_insert d r = Inr (d @ [r])"
proof -
  have uniq: "\<not> unique_check_fails d r [''invoicear_company'', ''afip_id'']"
    using assms(1,3,5,15) by (auto simp: unique_check_fails_def list_ex_iff)
  have "\<forall>f\<in>set (columns PointOfSaleAR). column_error f (getattr r (name f)) = None"
    using assms(3,5,6,7,8,9,10,11,12,14)
    by (auto simp: columns_PointOfSaleAR PointOfSaleAR_fields_def column_error_def field_defs)
  then have cols:
    "List.map_filter (\<lambda>f. column_error f (getattr r (name f))) (columns PointOfSaleAR) = []"
    by (simp only: map_filter_Nil)
  have checks:
      "\<not> list_ex (\<lambda>f. \<not> null f \<and> getattr r (name f) = VNone) (columns PointOfSaleAR)"
      "\<not> list_ex (dangling d r) (columns PointOfSaleAR)"
    using assms(3,4,5,8,10,12,13,14)
    by (simp_all add: columns_PointOfSaleAR PointOfSaleAR_fields_def field_defs dangling_def)
  show ?thesis
    using assms(1,2) uniq cols checks prepared_PointOfSaleAR[OF assms(1)]
    by (simp add: db_insert_def unique_checks_PointOfSaleAR)
qed

text \<open>
  C7. Inserting a \<open>PointOfSaleAR\<close> fails with \<open>IntegrityError\<close> when a stored point of sale
  has the same \<open>invoicear_company\<close> and the same \<open>afip_id\<close>. A point of sale is stored
  when its key is free, its columns are all given and fit (an \<open>afip_id\<close> from 0 to 32767,
  a name of at most 150 characters, a type of one character), its company and address
  exist and its \<open>afip_id\<close> is only used by points of sale of other companies.
\<close>

theorem afip_id_unique_per_company:
  assumes "rmodel r = PointOfSaleAR"
  shows "(list_ex (\<lambda>p. rmodel p = PointOfSaleAR \<and>
                      getattr p ''invoicear_company'' = getattr r ''invoicear_company'' \<and>
                      getattr p ''afip_id'' = getattr r ''afip_id'') d
            \<longrightarrow> db_insert d r = Inl IntegrityError) \<and>
         (\<not> exists_row d (key_of r) \<and>
          getattr r ''invoicear_company'' = VRef c \<and> exists_row d (CompanyInvoiceAR, c) \<and>
          getattr r ''afip_id'' = VInt a \<and> 0 \<le> a \<and> a \<le> 32767 \<and>
          getattr r ''fantasy_name'' = VStr n \<and> length n \<le> 150 \<and>
          getattr r ''point_of_sale_type'' = VStr t \<and> length t \<le> 1 \<and>
          getattr r ''fiscal_address'' = VRef b \<and> exists_row d (PhysicalAddress, b) \<and>
          getattr r ''is_inactive'' = VBool i \<and>
          (\<forall>p\<in>set d. rmodel p = PointOfSaleAR \<and> getattr p ''afip_id'' = VInt a
             \<longrightarrow> getattr p ''invoicear_company'' \<noteq> VRef c)
            \<longrightarrow> db_insert d r = Inr (d @ [r]))"
proof (intro conjI impI)
  assume "list_ex (\<lambda>p. rmodel p = PointOfSaleAR \<and>
                      getattr p ''invoicear_company'' = getattr r ''invoicear_company'' \<and>
                      getattr p ''afip_id'' = getattr r ''afip_id'') d"
  then show "db_insert d r = Inl IntegrityError"
    using point_of_sale_duplicate_rejected[OF assms] by (auto simp: list_ex_iff)
next
  assume a: "\<not> exists_row d (key_of r) \<and>
          getattr r ''invoicear_company'' = VRef c \<and> exists_row d (CompanyInvoiceAR, c) \<and>
          getattr r ''afip_id'' = VInt a \<and> 0 \<le> a \<and> a \<le> 32767 \<and>
          getattr r ''fantasy_name'' = VStr n \<and> length n \<le> 150 \<and>
          getattr r ''point_of_sale_type'' = VStr t \<and> length t \<le> 1 \<and>
          getattr r ''fiscal_address'' = VRef b \<and> exists_row d (PhysicalAddress, b) \<and>
          getattr r ''is_inactive'' = VBool i \<and>
          (\<forall>p\<in>set d. rmodel p = PointOfSaleAR \<and> getattr p ''afip_id'' = VInt a
             \<longrightarrow> getattr p ''invoicear_company'' \<noteq> VRef c)"
  show "db_insert d r = Inr (d @ [r])"
    by (rule point_of_sale_accepted[OF assms, of d c a n t b i]) (use a in blast)+
qed

theorem afip_id_unique_per_company_witness:
  "db_insert
     [ \<lparr> rmodel = PhysicalAddress, pk = 1, vals = [] \<rparr>,
       \<lparr> rmodel = CompanyInvoiceAR, pk = 1, vals = [(''invoice_company'', VRef 1)] \<rparr>,
       \<lparr> rmodel = CompanyInvoiceAR, pk = 2, vals = [(''invoice_company'', VRef 2)] \<rparr>,
       \<lparr> rmodel = PointOfSaleAR, pk = 1,
          vals = [(''invoicear_company'', VRef 1), (''afip_id'', VInt 4),
                  (''fantasy_name'', VStr ''Main''), (''point_of_sale_type'', VStr ''W''),
                  (''fiscal_address'', VRef 1), (''is_inactive'', VBool False)] \<rparr> ]
     \<lparr> rmodel = PointOfSaleAR, pk = 2,
        vals = [(''invoicear_company'', VRef 1), (''afip_id'', VInt 4),
                (''fantasy_name'', VStr ''Branch''), (''point_of_sale_type'', VStr ''W''),
                (''fiscal_address'', VRef 1), (''is_inactive'', VBool False)] \<rparr>
   = Inl IntegrityError \<and>
   db_insert
     [ \<lparr> rmodel = PhysicalAddress, pk = 1, vals = [] \<rparr>,
       \<lparr> rmodel = CompanyInvoiceAR, pk = 1, vals = [(''invoice_company'', VRef 1)] \<rparr>,
       \<lparr> rmodel = CompanyInvoiceAR, pk = 2, vals = [(''invoice_company'', VRef 2)] \<rparr>,
       \<lparr> rmodel = PointOfSaleAR, pk = 1,
          vals = [(''invoicear_company'', VRef 1), (''afip_id'', VInt 4),
                  (''fantasy_name'', VStr ''Main''), (''point_of_sale_type'', VStr ''W''),
                  (''fiscal_address'', VRef 1), (''is_inactive'', VBool False)] \<rparr> ]
     \<lparr> rmodel = PointOfSaleAR, pk = 2,
        vals = [(''invoicear_company'', VRef 2), (''afip_id'', VInt 4),
                (''fantasy_name'', VStr ''Branch''), (''point_of_sale_type'', VStr ''W''),
                (''fiscal_address'', VRef 1), (''is_inactive'', VBool False)] \<rparr>
   = Inr
     [ \<lparr> rmodel = PhysicalAddress, pk = 1, vals = [] \<rparr>,
       \<lparr> rmodel = CompanyInvoiceAR, pk = 1, vals = [(''invoice_company'', VRef 1)] \<rparr>,
       \<lparr> rmodel = CompanyInvoiceAR, pk = 2, vals = [(''invoice_company'', VRef 2)] \<rparr>,
       \<lparr> rmodel = PointOfSaleAR, pk = 1,
          vals = [(''invoicear_company'', VRef 1), (''afip_id'', VInt 4),
                  (''fantasy_name'', VStr ''Main''), (''point_of_sale_type'', VStr ''W''),
                  (''fiscal_address'', VRef 1), (''is_inactive'', VBool False)] \<rparr>,
       \<lparr> rmodel = PointOfSaleAR, pk = 2,
          vals = [(''invoicear_company'', VRef 2), (''afip_id'', VInt 4),
                  (''fantasy_name'', VStr ''Branch''), (''point_of_sale_type'', VStr ''W''),
                  (''fiscal_address'', VRef 1), (''is_inactive'', VBool False)] \<rparr> ]"
  using
    afip_id_unique_per_company[of
      "\<lparr> rmodel = PointOfSaleAR, pk = 2,
         vals = [(''invoicear_company'', VRef 1), (''afip_id'', VInt 4),
                 (''fantasy_name'', VStr ''Branch''), (''point_of_sale_type'', VStr ''W''),
                 (''fiscal_address'', VRef 1), (''is_inactive'', VBool False)] \<rparr>"
      "[ \<lparr> rmodel = PhysicalAddress, pk = 1, vals = [] \<rparr>,
         \<lparr> rmodel = CompanyInvoiceAR, pk = 1, vals = [(''invoice_company'', VRef 1)] \<rparr>,
         \<lparr> rmodel = CompanyInvoiceAR, pk = 2, vals = [(''invoice_company'', VRef 2)] \<rparr>,
         \<lparr> rmodel = PointOfSaleAR, pk = 1,
            vals = [(''invoicear_company'', VRef 1), (''afip_id'', VInt 4),
                    (''fantasy_name'', VStr ''Main''), (''point_of_sale_type'', VStr ''W''),
                    (''fiscal_address'', VRef 1), (''is_inactive'', VBool False)] \<rparr> ]"
      1 4 "''Branch''" "''W''" 1 False]
    afip_id_unique_per_company[of
      "\<lparr> rmodel = PointOfSaleAR, pk = 2,
         vals = [(''invoicear_company'', VRef 2), (''afip_id'', VInt 4),
                 (''fantasy_name'', VStr ''Branch''), (''point_of_sale_type'', VStr ''W''),
                 (''fiscal_address'', VRef 1), (''is_inactive'', VBool False)] \<rparr>"
      "[ \<lparr> rmodel = PhysicalAddress, pk = 1, vals = [] \<rparr>,
         \<lparr> rmodel = CompanyInvoiceAR, pk = 1, vals = [(''invoice_company'', VRef 1)] \<rparr>,
         \<lparr> rmodel = CompanyInvoiceAR, pk = 2, vals = [(''invoice_company'', VRef 2)] \<rparr>,
         \<lparr> rmodel = PointOfSaleAR, pk = 1,
            vals = [(''invoicear_company'', VRef 1), (''afip_id'', VInt 4),
                    (''fantasy_name'', VStr ''Main''), (''point_of_sale_type'', VStr ''W''),
                    (''fiscal_address'', VRef 1), (''is_inactive'', VBool False)] \<rparr> ]"
      2 4 "''Branch''" "''W''" 1 False]
  by (simp add: getattr_def exists_row_def key_of_def)

section \<open>Required and optional fiscal position\<close>

lemma key_of_setattr: "key_of (setattr r n v) = key_of r"
  by (simp add: key_of_def setattr_def)

lemma rmodel_setattr: "rmodel (setattr r n v) = rmodel r"
  by (simp add: setattr_def)

lemma pk_setattr: "pk (setattr r n v) = pk r"
  by (simp add: setattr_def)

lemma columns_ContactInvoice: "columns ContactInvoice = ContactInvoice_fields"
  by (simp add: columns_def ContactInvoice_fields_def field_defs)

lemma columns_CompanyInvoice: "columns CompanyInvoice = CompanyInvoice_fields"
  by (simp add: columns_def CompanyInvoice_fields_def field_defs)

lemma unique_checks_CompanyInvoice: "unique_checks CompanyInvoice = [[''persons_company'']]"
  by (simp add: unique_checks_def columns_CompanyInvoice CompanyInvoice_fields_def field_defs)

lemma contact_needs_fiscal_position:
  assumes "rmodel r = ContactInvoice" and "getattr r ''fiscal_position'' = VNone"
  shows "db_insert d r = Inl IntegrityError"
    and "(''fiscal_position'', [E_null]) \<in> set (clean_fields d today r)"
proof -
  show "db_insert d r = Inl IntegrityError"
    using assms
    by (simp add: db_insert_def columns_ContactInvoice ContactInvoice_fields_def field_defs)
  have mem: "ContactInvoice_fiscal_position \<in> set (concrete_fields (rmodel r))"
    using assms(1)
    by (simp add: concrete_fields_def meta_fields_def ContactInvoice_fields_def field_defs)
  have "field_errors d today r ContactInvoice_fiscal_position = [(''fiscal_position'', [E_null])]"
    using assms(2) by (simp add: field_errors_def field_defs clean_defs)
  with clean_fields_member[OF mem, of "(''fiscal_position'', [E_null])" d today]
  show "(''fiscal_position'', [E_null]) \<in> set (clean_fields d today r)"
    by simp
qed

lemma fiscal_position_field_ContactInvoice:
  "find (\<lambda>f. name f = ''fiscal_position'') (concrete_fields ContactInvoice)
     = Some ContactInvoice_fiscal_position"
  by (simp add: concrete_fields_def meta_fields_def ContactInvoice_fields_def field_defs)

lemma init_unset:
  assumes "model_init m k kwargs = Inr r" and "n \<notin> fst ` set kwargs"
    and "find (\<lambda>f. name f = n) (concrete_fields m) = Some f"
  shows "rmodel r = m \<and> getattr r n = get_default f"
proof -
  from assms(1) have ok: "list_all (\<lambda>kw. fst kw \<in> set (map name (concrete_fields m))) kwargs"
    by (auto simp: model_init_def split: if_splits)
  from init_default[OF assms(2) ok assms(3), of k] assms(1) have "getattr r n = get_default f"
    by auto
  moreover from assms(1) have "rmodel r = m"
    by (auto simp: model_init_def split: if_splits)
  ultimately show ?thesis by simp
qed

lemma prepared_CompanyInvoice: "rmodel r = CompanyInvoice \<Longrightarrow> prepared r = r"
  by (rule prepared_no_decimal)
    (simp add: columns_CompanyInvoice CompanyInvoice_fields_def field_defs)

lemma company_without_fiscal_position:
  assumes "rmodel r = CompanyInvoice" and "db_insert d r = Inr d'"
  shows "db_insert d (setattr r ''fiscal_position'' VNone)
           = Inr (d @ [setattr r ''fiscal_position'' VNone])"
    and "field_errors d today (setattr r ''fiscal_position'' VNone)
           CompanyInvoice_fiscal_position = []"
proof -
  let ?r = "setattr r ''fiscal_position'' VNone"
  from assms have ok:
      "\<not> exists_row d (key_of r)"
      "\<not> list_ex (\<lambda>f. \<not> null f \<and> getattr r (name f) = VNone) CompanyInvoice_fields"
      "\<not> unique_check_fails d r [''persons_company'']"
      "\<not> list_ex (dangling d r) CompanyInvoice_fields"
      "List.map_filter (\<lambda>f. column_error f (getattr r (name f))) CompanyInvoice_fields = []"
    by (auto simp: db_insert_def columns_CompanyInvoice unique_checks_CompanyInvoice
        split: if_splits list.splits)
  have uniq: "\<not> unique_check_fails d ?r [''persons_company'']"
    using ok(3) by (simp add: unique_check_fails_def getattr_setattr rmodel_setattr pk_setattr)
  have checks:
      "\<not> list_ex (\<lambda>f. \<not> null f \<and> getattr ?r (name f) = VNone) CompanyInvoice_fields"
      "\<not> list_ex (dangling d ?r) CompanyInvoice_fields"
    using ok(2,4)
    by (simp_all add: getattr_setattr CompanyInvoice_fields_def field_defs dangling_def)
  from ok(5) have "\<forall>f\<in>set CompanyInvoice_fields. column_error f (getattr r (name f)) = None"
    by (simp only: map_filter_Nil)
  then have "\<forall>f\<in>set CompanyInvoice_fields. column_error f (getattr ?r (name f)) = None"
    by (simp add: getattr_setattr CompanyInvoice_fields_def field_defs column_error_def)
  then have cols:
    "List.map_filter (\<lambda>f. column_error f (getattr ?r (name f))) CompanyInvoice_fields = []"
    by (simp only: map_filter_Nil)
  have stored: "prepared ?r = ?r"
    using assms(1) by (simp add: prepared_CompanyInvoice rmodel_setattr)
  show "db_insert d ?r = Inr (d @ [?r])"
    using ok(1) assms(1) uniq checks cols stored
    by (simp add: db_insert_def columns_CompanyInvoice unique_checks_CompanyInvoice
        key_of_setattr rmodel_setattr)
  show "field_errors d today ?r CompanyInvoice_fiscal_position = []"
    by (simp add: field_errors_def getattr_setattr field_defs empty_values_def)
qed

text \<open>
  C8. \<open>ContactInvoice.fiscal_position\<close> is declared neither nullable nor blank, and
  \<open>CompanyInvoice.fiscal_position\<close> both. A \<open>ContactInvoice\<close> without fiscal position fails
  validation with the error \<open>null\<close> on that field and cannot be inserted, and that is the
  case of every \<open>ContactInvoice\<close> created without the argument. A \<open>CompanyInvoice\<close> that
  can be inserted can also be inserted with its fiscal position unset, and validation
  reports nothing for the unset field.
\<close>

theorem fiscal_position_required_for_contacts:
  "(\<not> null ContactInvoice_fiscal_position \<and> \<not> blank ContactInvoice_fiscal_position \<and>
    null CompanyInvoice_fiscal_position \<and> blank CompanyInvoice_fiscal_position) \<and>
   (rmodel r = ContactInvoice \<and> getattr r ''fiscal_position'' = VNone
      \<longrightarrow> db_insert d r = Inl IntegrityError \<and>
          (''fiscal_position'', [E_null]) \<in> set (clean_fields d today r)) \<and>
   (model_init ContactInvoice k kwargs = Inr r \<and> ''fiscal_position'' \<notin> fst ` set kwargs
      \<longrightarrow> db_insert d r = Inl IntegrityError) \<and>
   (rmodel r = CompanyInvoice \<and> db_insert d r = Inr d'
      \<longrightarrow> db_insert d (setattr r ''fiscal_position'' VNone)
            = Inr (d @ [setattr r ''fiscal_position'' VNone]) \<and>
          field_errors d today (setattr r ''fiscal_position'' VNone)
            CompanyInvoice_fiscal_position = [])"
proof -
  have declared:
    "\<not> null ContactInvoice_fiscal_position \<and> \<not> blank ContactInvoice_fiscal_position \<and>
     null CompanyInvoice_fiscal_position \<and> blank CompanyInvoice_fiscal_position"
    by (simp add: field_defs)
  have contact:
    "rmodel r = ContactInvoice \<and> getattr r ''fiscal_position'' = VNone
      \<longrightarrow> db_insert d r = Inl IntegrityError \<and>
          (''fiscal_position'', [E_null]) \<in> set (clean_fields d today r)"
    using contact_needs_fiscal_position by blast
  have created:
    "model_init ContactInvoice k kwargs = Inr r \<and> ''fiscal_position'' \<notin> fst ` set kwargs
      \<longrightarrow> db_insert d r = Inl IntegrityError"
  proof
    assume a: "model_init ContactInvoice k kwargs = Inr r \<and>
      ''fiscal_position'' \<notin> fst ` set kwargs"
    from init_unset[OF _ _ fiscal_position_field_ContactInvoice, of k kwargs r] a
    have "rmodel r = ContactInvoice" "getattr r ''fiscal_position'' = VNone"
      by (auto simp: get_default_def field_defs)
    from contact_needs_fiscal_position(1)[OF this] show "db_insert d r = Inl IntegrityError" .
  qed
  have company:
    "rmodel r = CompanyInvoice \<and> db_insert d r = Inr d'
      \<longrightarrow> db_insert d (setattr r ''fiscal_position'' VNone)
            = Inr (d @ [setattr r ''fiscal_position'' VNone]) \<and>
          field_errors d today (setattr r ''fiscal_position'' VNone)
            CompanyInvoice_fiscal_position = []"
    using company_without_fiscal_position by blast
  from declared contact created company show ?thesis by blast
qed

theorem fiscal_position_required_for_contacts_witness:
  "db_insert [ \<lparr> rmodel = Contact, pk = 1, vals = [] \<rparr>,
               \<lparr> rmodel = PhysicalAddress, pk = 1, vals = [] \<rparr> ]
     \<lparr> rmodel = ContactInvoice, pk = 1,
        vals = [(''contact_contact'', VRef 1), (''legal_name'', VStr ''Ann''),
                (''fiscal_address'', VRef 1)] \<rparr>
   = Inl IntegrityError \<and>
   db_insert [ \<lparr> rmodel = Company, pk = 1, vals = [] \<rparr>,
               \<lparr> rmodel = FiscalPosition, pk = 1, vals = [(''name'', VStr ''RI'')] \<rparr> ]
     (setattr \<lparr> rmodel = CompanyInvoice, pk = 1,
                 vals = [(''persons_company'', VRef 1), (''legal_name'', VStr ''Acme''),
                         (''fiscal_position'', VRef 1)] \<rparr>
        ''fiscal_position'' VNone)
   = Inr [ \<lparr> rmodel = Company, pk = 1, vals = [] \<rparr>,
           \<lparr> rmodel = FiscalPosition, pk = 1, vals = [(''name'', VStr ''RI'')] \<rparr>,
           \<lparr> rmodel = CompanyInvoice, pk = 1,
              vals = [(''fiscal_position'', VNone), (''persons_company'', VRef 1),
                      (''legal_name'', VStr ''Acme''), (''fiscal_position'', VRef 1)] \<rparr> ]"
proof -
  let ?c = "\<lparr> rmodel = ContactInvoice, pk = 1,
        vals = [(''contact_contact'', VRef 1), (''legal_name'', VStr ''Ann''),
                (''fiscal_address'', VRef 1)] \<rparr>"
  let ?dc = "[ \<lparr> rmodel = Contact, pk = 1, vals = [] \<rparr>,
               \<lparr> rmodel = PhysicalAddress, pk = 1, vals = [] \<rparr> ]"
  let ?r = "\<lparr> rmodel = CompanyInvoice, pk = 1,
                 vals = [(''persons_company'', VRef 1), (''legal_name'', VStr ''Acme''),
                         (''fiscal_position'', VRef 1)] \<rparr>"
  let ?d = "[ \<lparr> rmodel = Company, pk = 1, vals = [] \<rparr>,
               \<lparr> rmodel = FiscalPosition, pk = 1, vals = [(''name'', VStr ''RI'')] \<rparr> ]"
  have h1: "rmodel ?c = ContactInvoice \<and> getattr ?c ''fiscal_position'' = VNone"
    by (simp add: getattr_def)
  have h2: "rmodel ?r = CompanyInvoice \<and> db_insert ?d ?r = Inr (?d @ [?r])"
    by code_simp
  from fiscal_position_required_for_contacts[of ?c ?dc 0 0 "[]" "[]"] h1
  have c: "db_insert ?dc ?c = Inl IntegrityError" by blast
  from fiscal_position_required_for_contacts[of ?r ?d 0 0 "[]" "?d @ [?r]"] h2
  have "db_insert ?d (setattr ?r ''fiscal_position'' VNone)
            = Inr (?d @ [setattr ?r ''fiscal_position'' VNone])" by blast
  with c show ?thesis by (simp add: setattr_def)
qed

end
